theory Spec2Isabelle
  imports Complex_Main "HOL-Library.Log_Nat"
begin

section \<open>Numbers, identifiers and time\<close>

text \<open>
  The store is a Next.js application over MongoDB/Mongoose. The embedding follows the
  route handlers and the schemas of the repository.

  A JavaScript \<open>number\<close> is an IEEE-754 double. The pricing functions of
  \<open>src/lib/utils\<close> are modelled in double arithmetic: a finite double is the rational it
  denotes, and each operation rounds its exact result to the nearest double. The amounts
  that documents, requests and responses hold are rationals, and the sums, products and
  comparisons that the route handlers make of them are read as exact. Counters and
  quantities are integers. An \<open>ObjectId\<close> is a natural number, a stored date is a number
  of milliseconds since the epoch.
\<close>

type_synonym oid = nat
type_synonym time = int

text \<open>\<open>Math.round\<close>: the nearest integer, a tie going towards plus infinity.\<close>

definition Math_round :: "rat \<Rightarrow> int" where
  "Math_round x = \<lfloor>x + 1 / 2\<rfloor>"

subsection \<open>Double arithmetic\<close>

text \<open>
  A \<open>number\<close> is a finite double, given by its value, or not finite: \<open>NotFinite\<close> stands
  for the two infinities and for \<open>NaN\<close>, which the operations below hand on. The two
  zeros are not told apart; they are equal for \<open>===\<close> and for the comparisons.
\<close>

datatype number = Finite rat | NotFinite

text \<open>
  \<open>floor_log2 x\<close> is the exponent of a positive rational: the integer \<open>k\<close> with
  \<open>2 ^ k \<le> x < 2 ^ (k + 1)\<close>, found from the bit lengths of numerator and denominator.
  \<open>round_half_even\<close> is the nearest integer, a tie going to the even one.
\<close>

definition floor_log2 :: "rat \<Rightarrow> int" where
  "floor_log2 x =
     (let (a, b) = quotient_of x; k = bitlen a - bitlen b
      in if 2 powi k \<le> x then k else k - 1)"

definition round_half_even :: "rat \<Rightarrow> int" where
  "round_half_even q =
     (let f = \<lfloor>q\<rfloor>; r = q - of_int f
      in if r < 1 / 2 then f else if 1 / 2 < r then f + 1 else if even f then f else f + 1)"

text \<open>
  \<open>fl x\<close> is the double nearest to \<open>x\<close>, ties to even: a multiple of \<open>2 ^ (e - 52)\<close>
  where \<open>e\<close> is the exponent of \<open>x\<close>, and of \<open>2 ^ - 1074\<close> in the subnormal range;
  a result of \<open>2 ^ 1024\<close> or more is an infinity. A rational is a double when rounding
  leaves it as it is.
\<close>

definition fl :: "rat \<Rightarrow> number" where
  "fl x =
     (if x = 0 then Finite 0
      else
        let e = max (floor_log2 \<bar>x\<bar>) (- 1022);
            u = 2 powi (e - 52);
            y = of_int (round_half_even (\<bar>x\<bar> / u)) * u
        in if 2 powi 1024 \<le> y then NotFinite else Finite (sgn x * y))"







section \<open>Pricing (\<open>src/lib/utils/index.ts\<close>)\<close>




section \<open>Strings\<close>

text \<open>
  Strings are read as ASCII text. \<open>toUpperCase\<close> maps the letters a to z; other
  characters are left as they are. \<open>trim\<close> removes leading and trailing white space:
  the space, the tabs, the line feed, the form feed and the carriage return. A string is
  falsy in JavaScript when it is missing or empty.
\<close>

definition toUpperCase_char :: "char \<Rightarrow> char" where
  "toUpperCase_char c =
     (let k = (of_char c :: nat) in if 97 \<le> k \<and> k \<le> 122 then char_of (k - 32) else c)"

definition toUpperCase :: "string \<Rightarrow> string" where
  "toUpperCase str = map toUpperCase_char str"

definition is_blank :: "char \<Rightarrow> bool" where
  "is_blank c =
     (c = CHR '' '' \<or> c = CHR 0x09 \<or> c = CHR 0x0A \<or> c = CHR 0x0B \<or> c = CHR 0x0C
      \<or> c = CHR 0x0D)"

definition trim :: "string \<Rightarrow> string" where
  "trim str = rev (dropWhile is_blank (rev (dropWhile is_blank str)))"

definition truthy_string :: "string option \<Rightarrow> bool" where
  "truthy_string x = (case x of None \<Rightarrow> False | Some v \<Rightarrow> v \<noteq> [])"

section \<open>Utilities (\<open>src/lib/utils/index.ts\<close>)\<close>

text \<open>
  \<open>generateDiscountCode\<close> takes the text of a version-4 UUID (the argument stands for the
  call \<open>uuidv4()\<close>), removes the dashes, upper-cases it and returns
  \<open>UNIBLOX-\<close>, characters 0 to 3, a dash, characters 4 to 7.
\<close>

definition generateDiscountCode :: "string \<Rightarrow> string" where
  "generateDiscountCode uuidv4_text =
     (let uuid = toUpperCase (filter (\<lambda>c. c \<noteq> CHR ''-'') uuidv4_text)
      in ''UNIBLOX-'' @ take 4 uuid @ ''-'' @ take 4 (drop 4 uuid))"

text \<open>
  A \<open>Date\<close> object holds a time value or is the invalid date. The date arithmetic of the
  language standard works on day numbers and on the time within the day, and moves between
  the clock of the host and universal time with the host's offset \<open>LocalTZA(t, isUTC)\<close> in
  milliseconds, which is given as a function \<open>tza\<close>: it is asked at a universal time
  (\<open>isUTC\<close> true) or at a local time (\<open>isUTC\<close> false). \<open>TimeClip\<close> makes the date
  invalid when it is further than 8.64e15 milliseconds from the epoch.
\<close>

datatype js_date = Date time | Invalid_Date

definition msPerDay :: int where
  "msPerDay = 86400000"

definition Day :: "int \<Rightarrow> int" where
  "Day t = t div msPerDay"

definition TimeWithinDay :: "int \<Rightarrow> int" where
  "TimeWithinDay t = t mod msPerDay"

definition MakeDate :: "int \<Rightarrow> int \<Rightarrow> int" where
  "MakeDate day time_in_day = day * msPerDay + time_in_day"

definition LocalTime :: "(time \<Rightarrow> bool \<Rightarrow> int) \<Rightarrow> time \<Rightarrow> int" where
  "LocalTime tza t = t + tza t True"

definition UTC :: "(time \<Rightarrow> bool \<Rightarrow> int) \<Rightarrow> int \<Rightarrow> int" where
  "UTC tza t = t - tza t False"

definition TimeClip :: "int \<Rightarrow> js_date" where
  "TimeClip t = (if \<bar>t\<bar> > 8640000000000000 then Invalid_Date else Date t)"

text \<open>
  \<open>getExpiryDate(days)\<close> takes \<open>new Date()\<close> and calls
  \<open>date.setDate(date.getDate() + days)\<close>. With \<open>t\<close> the local time of the date,
  \<open>getDate()\<close> is the day of the month of \<open>t\<close>, and \<open>setDate(dt)\<close> sets the date to
  \<open>TimeClip(UTC(MakeDate(MakeDay(YearFromTime(t), MonthFromTime(t), dt), TimeWithinDay(t))))\<close>.
  \<open>MakeDay\<close> of a year, a month and a day of the month \<open>dt\<close> is the day number of the
  first of that month plus \<open>dt - 1\<close>; for \<open>dt\<close> the day of the month of \<open>t\<close> plus
  \<open>days\<close> this is \<open>Day(t) + days\<close>. So the date moves by \<open>days\<close> days of the local
  calendar and keeps the local time of day. \<open>isExpired(date)\<close> is false for a missing date
  and otherwise tells whether the current time is after it.
\<close>

definition getExpiryDate :: "(time \<Rightarrow> bool \<Rightarrow> int) \<Rightarrow> time \<Rightarrow> int \<Rightarrow> js_date" where
  "getExpiryDate tza current days =
     (let t = LocalTime tza current;
          newDate = MakeDate (Day t + days) (TimeWithinDay t)
      in TimeClip (UTC tza newDate))"

definition isExpired :: "time \<Rightarrow> time option \<Rightarrow> bool" where
  "isExpired current date = (case date of None \<Rightarrow> False | Some d \<Rightarrow> current > d)"

text \<open>\<open>orderNumber % n === 0\<close>; the remainder by 0 is \<open>NaN\<close>, which is not 0.\<close>

definition isNthOrder :: "nat \<Rightarrow> nat \<Rightarrow> bool" where
  "isNthOrder orderNumber n = (if n = 0 then False else orderNumber mod n = 0)"

section \<open>Documents (\<open>src/lib/db/models\<close>)\<close>

text \<open>
  One record per Mongoose schema. Field names follow the schemas; a prefix is added where
  two schemas share a field name (\<open>prod_id\<close> is the product's \<open>_id\<close>, \<open>oi_name\<close> the
  order item's \<open>name\<close>). The automatic \<open>createdAt\<close> and \<open>updatedAt\<close> stamps, and the
  product's description and category, are left out: no handler below reads them.
\<close>

record product =
  prod_id :: oid
  prod_name :: string
  price :: rat
  prod_image :: string
  stock :: int
  isActive :: bool

record cart_item =
  ci_product :: oid
  ci_quantity :: int
  priceAtAdd :: rat

record cart =
  cart_user :: oid
  cart_items :: "cart_item list"
  appliedDiscount :: "oid option"

record discount_code =
  dc_id :: oid
  code :: string
  dc_discountPercent :: rat
  isUsed :: bool
  usedBy :: "oid option"
  usedAt :: "time option"
  generatedForOrder :: nat
  expiresAt :: "time option"

record order_item =
  oi_product :: oid
  oi_name :: string
  oi_quantity :: int
  oi_price :: rat
  oi_image :: string

record shipping_address =
  sa_name :: string
  sa_address :: string
  sa_city :: string
  sa_state :: string
  sa_pincode :: string
  sa_phone :: string

datatype payment_status = PaymentPending | PaymentCompleted | PaymentFailed

datatype order_status = Pending | Processing | Shipped | Delivered | Cancelled

record order =
  order_id :: oid
  order_user :: oid
  orderNumber :: nat
  order_items :: "order_item list"
  order_subtotal :: rat
  order_discountCode :: "string option"
  order_discountPercent :: rat
  order_discountAmount :: rat
  order_total :: rat
  paymentId :: "string option"
  paymentStatus :: payment_status
  status :: order_status
  order_shippingAddress :: "shipping_address option"

record store_settings =
  nthOrderDiscount :: nat
  discountPercent :: rat
  totalOrders :: nat
  defaultDiscountExpiry :: "int option"

text \<open>
  The database: one list per collection, in insertion order, and the settings document,
  of which \<open>getStoreSettings\<close> keeps at most one. The users collection is not part of
  the model; a handler that needs a user receives the outcome of the lookup.
\<close>

record store =
  products :: "product list"
  carts :: "cart list"
  discounts :: "discount_code list"
  orders :: "order list"
  settings :: "store_settings option"

section \<open>Mongoose operations\<close>

text \<open>
  \<open>findOne\<close> returns the first document that matches; \<open>findOneAndUpdate\<close> and
  \<open>findByIdAndUpdate\<close> change the first document that matches and do nothing when none
  does; they do not run the schema's validators. \<open>create\<close> and \<open>save\<close> validate the
  document against its schema and respect the unique indexes; a violation throws, which is
  \<open>None\<close> here.
\<close>

definition findOne :: "('a \<Rightarrow> bool) \<Rightarrow> 'a list \<Rightarrow> 'a option" where
  "findOne P docs = find P docs"

fun findOneAndUpdate :: "('a \<Rightarrow> bool) \<Rightarrow> ('a \<Rightarrow> 'a) \<Rightarrow> 'a list \<Rightarrow> 'a list" where
  "findOneAndUpdate P f [] = []"
| "findOneAndUpdate P f (d # docs) =
     (if P d then f d # docs else d # findOneAndUpdate P f docs)"

fun findOneAndDelete :: "('a \<Rightarrow> bool) \<Rightarrow> 'a list \<Rightarrow> 'a list" where
  "findOneAndDelete P [] = []"
| "findOneAndDelete P (d # docs) = (if P d then docs else d # findOneAndDelete P docs)"

subsection \<open>Store settings (\<open>StoreSettings.model.ts\<close>)\<close>

definition valid_settings :: "store_settings \<Rightarrow> bool" where
  "valid_settings st =
     (1 \<le> nthOrderDiscount st \<and> 1 \<le> discountPercent st \<and> discountPercent st \<le> 100
      \<and> (case defaultDiscountExpiry st of None \<Rightarrow> True | Some d \<Rightarrow> 1 \<le> d))"

definition default_settings :: store_settings where
  "default_settings =
     \<lparr>nthOrderDiscount = 5, discountPercent = 10, totalOrders = 0,
      defaultDiscountExpiry = None\<rparr>"

definition getStoreSettings :: "store \<Rightarrow> store_settings \<times> store" where
  "getStoreSettings s =
     (case settings s of
        Some st \<Rightarrow> (st, s)
      | None \<Rightarrow> (default_settings, s\<lparr>settings := Some default_settings\<rparr>))"

definition save_settings :: "store_settings \<Rightarrow> store \<Rightarrow> store option" where
  "save_settings st s = (if valid_settings st then Some (s\<lparr>settings := Some st\<rparr>) else None)"

subsection \<open>Orders (\<open>Order.model.ts\<close>)\<close>

definition valid_order_item :: "order_item \<Rightarrow> bool" where
  "valid_order_item i =
     (oi_name i \<noteq> [] \<and> 1 \<le> oi_quantity i \<and> 0 \<le> oi_price i \<and> oi_image i \<noteq> [])"

definition valid_shipping_address :: "shipping_address \<Rightarrow> bool" where
  "valid_shipping_address a =
     (sa_name a \<noteq> [] \<and> sa_address a \<noteq> [] \<and> sa_city a \<noteq> [] \<and> sa_state a \<noteq> []
      \<and> sa_pincode a \<noteq> [] \<and> sa_phone a \<noteq> [])"

definition valid_order :: "order \<Rightarrow> bool" where
  "valid_order doc =
     (order_items doc \<noteq> [] \<and> list_all valid_order_item (order_items doc)
      \<and> 0 \<le> order_subtotal doc
      \<and> 0 \<le> order_discountPercent doc \<and> order_discountPercent doc \<le> 100
      \<and> 0 \<le> order_discountAmount doc
      \<and> 0 \<le> order_total doc
      \<and> (case order_shippingAddress doc of None \<Rightarrow> True | Some a \<Rightarrow> valid_shipping_address a))"

definition Order_create :: "order \<Rightarrow> store \<Rightarrow> store option" where
  "Order_create doc s =
     (if valid_order doc \<and> orderNumber doc \<notin> set (map orderNumber (orders s))
      then Some (s\<lparr>orders := orders s @ [doc]\<rparr>) else None)"

subsection \<open>Discount codes (\<open>DiscountCode.model.ts\<close>)\<close>

text \<open>
  The schema upper-cases and trims the code (\<open>uppercase: true, trim: true\<close>), both when a
  document is written and when a query names the code: Mongoose casts the filter of a
  query through the setters of the schema. The value given for \<open>expiresAt\<close> is cast to a
  date; a missing value stays missing, and an invalid date is a cast error, with which
  \<open>create\<close> and \<open>save\<close> throw before anything is written (\<open>None\<close> here).
\<close>

definition cast_date :: "js_date option \<Rightarrow> time option option" where
  "cast_date v =
     (case v of
        None \<Rightarrow> Some None
      | Some (Date t) \<Rightarrow> Some (Some t)
      | Some Invalid_Date \<Rightarrow> None)"

definition valid_discount_code :: "discount_code \<Rightarrow> bool" where
  "valid_discount_code d =
     (code d \<noteq> [] \<and> 1 \<le> dc_discountPercent d \<and> dc_discountPercent d \<le> 100)"

definition DiscountCode_create :: "discount_code \<Rightarrow> store \<Rightarrow> (discount_code \<times> store) option" where
  "DiscountCode_create doc s =
     (let d = doc\<lparr>code := toUpperCase (trim (code doc))\<rparr>
      in if valid_discount_code d \<and> code d \<notin> set (map code (discounts s))
         then Some (d, s\<lparr>discounts := discounts s @ [d]\<rparr>) else None)"

text \<open>The virtual \<open>isValid\<close>: not used and not expired.\<close>

definition isValid :: "time \<Rightarrow> discount_code \<Rightarrow> bool" where
  "isValid current d =
     (if isUsed d then False
      else if (case expiresAt d of None \<Rightarrow> False | Some e \<Rightarrow> current > e) then False
      else True)"

section \<open>The request environment and the responses\<close>

text \<open>
  What a handler takes from outside the database: the clock, the offset of the host's
  time zone, the text returned by \<open>uuidv4()\<close>, and the identifiers MongoDB gives to the
  documents the request creates.
  A response is a failure with its HTTP status and message, or a success with its payload.
\<close>

record env =
  now :: time
  localTZA :: "time \<Rightarrow> bool \<Rightarrow> int"
  uuidv4 :: string
  objectId1 :: oid
  objectId2 :: oid

datatype 'a response = Failure nat string | Success 'a

record session_user =
  su_id :: oid
  su_role :: string

section \<open>Order confirmation (\<open>PUT /api/checkout\<close>)\<close>

text \<open>
  The body of the request, as the handler destructures it. Every field comes from the
  caller; the handler reads no session.
\<close>

record confirm_body =
  razorpayOrderId :: "string option"
  razorpayPaymentId :: "string option"
  b_items :: "order_item list"
  b_subtotal :: rat
  b_discountCode :: "string option"
  b_discountPercent :: rat
  b_discountAmount :: rat
  b_total :: rat
  b_shippingAddress :: "shipping_address option"
  b_userId :: oid

record new_discount_info =
  nd_code :: string
  nd_discountPercent :: rat
  nd_expiresAt :: "time option"

record confirm_result =
  r_orderId :: oid
  r_orderNumber :: nat
  r_total :: rat
  r_status :: order_status
  r_paymentId :: "string option"
  newDiscountCode :: "new_discount_info option"

text \<open>The order document that the handler hands to \<open>Order.create\<close>.\<close>

definition order_of_body :: "env \<Rightarrow> confirm_body \<Rightarrow> nat \<Rightarrow> order" where
  "order_of_body e body number =
     \<lparr>order_id = objectId1 e,
      order_user = b_userId body,
      orderNumber = number,
      order_items = b_items body,
      order_subtotal = b_subtotal body,
      order_discountCode = (if truthy_string (b_discountCode body) then b_discountCode body else None),
      order_discountPercent = b_discountPercent body,
      order_discountAmount = b_discountAmount body,
      order_total = b_total body,
      paymentId = razorpayPaymentId body,
      paymentStatus = PaymentCompleted,
      status = Processing,
      order_shippingAddress = b_shippingAddress body\<rparr>"

text \<open>
  Mark discount code as used: \<open>findOneAndUpdate({ code: discountCode }, ...)\<close>, whose
  filter is cast by the schema.
\<close>

definition mark_discount_used ::
  "string option \<Rightarrow> oid \<Rightarrow> time \<Rightarrow> discount_code list \<Rightarrow> discount_code list" where
  "mark_discount_used discountCode userId current docs =
     (if truthy_string discountCode
      then findOneAndUpdate
             (\<lambda>d. Some (code d) = map_option (\<lambda>c. toUpperCase (trim c)) discountCode)
             (\<lambda>d. d\<lparr>isUsed := True, usedBy := Some userId, usedAt := Some current\<rparr>) docs
      else docs)"

text \<open>Decrement product stock, one \<open>findByIdAndUpdate\<close> with \<open>$inc\<close> per line item.\<close>

fun decrement_stock :: "order_item list \<Rightarrow> product list \<Rightarrow> product list" where
  "decrement_stock [] docs = docs"
| "decrement_stock (item # items) docs =
     decrement_stock items
       (findOneAndUpdate (\<lambda>p. prod_id p = oi_product item)
          (\<lambda>p. p\<lparr>stock := stock p - oi_quantity item\<rparr>) docs)"

text \<open>Clear the user's cart.\<close>

definition clear_cart :: "oid \<Rightarrow> cart list \<Rightarrow> cart list" where
  "clear_cart userId docs =
     findOneAndUpdate (\<lambda>c. cart_user c = userId)
       (\<lambda>c. c\<lparr>cart_items := [], appliedDiscount := None\<rparr>) docs"

text \<open>
  The discount code generated for an nth order: the expiry the handler computes, and the
  document it hands to \<open>DiscountCode.create\<close>, with the expiry as cast by the schema.
\<close>

definition nth_order_expiry :: "env \<Rightarrow> store_settings \<Rightarrow> js_date option" where
  "nth_order_expiry e st =
     (case defaultDiscountExpiry st of
        None \<Rightarrow> None
      | Some days \<Rightarrow> if days = 0 then None else Some (getExpiryDate (localTZA e) (now e) days))"

definition nth_order_discount :: "env \<Rightarrow> store_settings \<Rightarrow> nat \<Rightarrow> time option \<Rightarrow> discount_code" where
  "nth_order_discount e st number expires =
     \<lparr>dc_id = objectId2 e,
      code = generateDiscountCode (uuidv4 e),
      dc_discountPercent = discountPercent st,
      isUsed = False,
      usedBy = None,
      usedAt = None,
      generatedForOrder = number,
      expiresAt = expires\<rparr>"

definition confirm_response :: "order \<Rightarrow> new_discount_info option \<Rightarrow> confirm_result" where
  "confirm_response doc nd =
     \<lparr>r_orderId = order_id doc, r_orderNumber = orderNumber doc, r_total = order_total doc,
      r_status = status doc, r_paymentId = paymentId doc, newDiscountCode = nd\<rparr>"

definition checkout_PUT :: "env \<Rightarrow> confirm_body \<Rightarrow> store \<Rightarrow> confirm_result response \<times> store" where
  "checkout_PUT e body s =
     (if \<not> truthy_string (razorpayPaymentId body) \<or> \<not> truthy_string (razorpayOrderId body)
      then (Failure 400 ''Payment details missing'', s)
      else
        let (st0, s1) = getStoreSettings s;
            st = st0\<lparr>totalOrders := totalOrders st0 + 1\<rparr>;
            number = totalOrders st
        in case save_settings st s1 of
             None \<Rightarrow> (Failure 500 ''Order confirmation failed'', s1)
           | Some s2 \<Rightarrow>
               let doc = order_of_body e body number
               in case Order_create doc s2 of
                    None \<Rightarrow> (Failure 500 ''Order confirmation failed'', s2)
                  | Some s3 \<Rightarrow>
                      let s4 = s3\<lparr>discounts :=
                                   mark_discount_used (b_discountCode body) (b_userId body) (now e)
                                     (discounts s3)\<rparr>;
                          s5 = s4\<lparr>products := decrement_stock (b_items body) (products s4)\<rparr>;
                          s6 = s5\<lparr>carts := clear_cart (b_userId body) (carts s5)\<rparr>
                      in if isNthOrder number (nthOrderDiscount st)
                         then (case cast_date (nth_order_expiry e st) of
                                 None \<Rightarrow> (Failure 500 ''Order confirmation failed'', s6)
                               | Some expires \<Rightarrow>
                                   (case DiscountCode_create
                                           (nth_order_discount e st number expires) s6 of
                                      None \<Rightarrow> (Failure 500 ''Order confirmation failed'', s6)
                                    | Some (d, s7) \<Rightarrow>
                                        (Success (confirm_response doc
                                           (Some \<lparr>nd_code = code d,
                                                  nd_discountPercent = dc_discountPercent d,
                                                  nd_expiresAt = expiresAt d\<rparr>)), s7)))
                         else (Success (confirm_response doc None), s6))"

section \<open>Cart routes (\<open>/api/cart\<close>, \<open>/api/cart/[productId]\<close>)\<close>

definition valid_cart :: "cart \<Rightarrow> bool" where
  "valid_cart c = list_all (\<lambda>i. 1 \<le> ci_quantity i \<and> 0 \<le> priceAtAdd i) (cart_items c)"

text \<open>
  \<open>cart.save()\<close>: the document replaces the stored cart of the same user, or is inserted
  when the handler made it with \<open>new Cart\<close>.
\<close>

definition save_cart :: "cart \<Rightarrow> store \<Rightarrow> store option" where
  "save_cart c s =
     (if valid_cart c
      then Some (s\<lparr>carts :=
             (case findOne (\<lambda>c'. cart_user c' = cart_user c) (carts s) of
                Some _ \<Rightarrow> findOneAndUpdate (\<lambda>c'. cart_user c' = cart_user c) (\<lambda>_. c) (carts s)
              | None \<Rightarrow> carts s @ [c])\<rparr>)
      else None)"

text \<open>\<open>populate\<close>: a reference is replaced by the document it names, or by null.\<close>

definition populate_items :: "product list \<Rightarrow> cart_item list \<Rightarrow> (cart_item \<times> product option) list" where
  "populate_items docs items =
     map (\<lambda>item. (item, findOne (\<lambda>p. prod_id p = ci_product item) docs)) items"

definition populate_discount :: "discount_code list \<Rightarrow> oid option \<Rightarrow> discount_code option" where
  "populate_discount docs ref =
     (case ref of None \<Rightarrow> None | Some i \<Rightarrow> findOne (\<lambda>d. dc_id d = i) docs)"

record cart_view_item =
  cv_productId :: oid
  cv_name :: string
  cv_price :: rat
  cv_image :: string
  cv_quantity :: int
  cv_stock :: int
  cv_total :: rat

record discount_info =
  di_code :: string
  di_percent :: rat

record cart_view =
  v_items :: "cart_view_item list"
  itemCount :: int
  v_subtotal :: rat
  v_discount :: "discount_info option"
  v_discountAmount :: rat
  v_total :: rat

text \<open>Filter out inactive or deleted products.\<close>

fun active_items :: "(cart_item \<times> product option) list \<Rightarrow> (cart_item \<times> product) list" where
  "active_items [] = []"
| "active_items ((item, None) # rest) = active_items rest"
| "active_items ((item, Some p) # rest) =
     (if isActive p then (item, p) # active_items rest else active_items rest)"

definition cart_view_of :: "time \<Rightarrow> store \<Rightarrow> cart \<Rightarrow> cart_view" where
  "cart_view_of current s c =
     (let validItems = active_items (populate_items (products s) (cart_items c));
          subtotal = foldl (\<lambda>sum (item, p). sum + price p * of_int (ci_quantity item)) 0 validItems;
          (discountAmount, discountInfo) =
            (case populate_discount (discounts s) (appliedDiscount c) of
               None \<Rightarrow> (0, None)
             | Some discount \<Rightarrow>
                 if \<not> isUsed discount \<and> \<not> isExpired current (expiresAt discount)
                 then (of_int (Math_round (((subtotal * dc_discountPercent discount) / 100) * 100)) / 100,
                       Some \<lparr>di_code = code discount, di_percent = dc_discountPercent discount\<rparr>)
                 else (0, None));
          total = subtotal - discountAmount
      in \<lparr>v_items =
            map (\<lambda>(item, p).
                  \<lparr>cv_productId = prod_id p, cv_name = prod_name p, cv_price = price p,
                   cv_image = prod_image p, cv_quantity = ci_quantity item, cv_stock = stock p,
                   cv_total = price p * of_int (ci_quantity item)\<rparr>) validItems,
          itemCount = foldl (\<lambda>sum (item, p). sum + ci_quantity item) 0 validItems,
          v_subtotal = subtotal,
          v_discount = discountInfo,
          v_discountAmount = discountAmount,
          v_total = total\<rparr>)"

definition cart_GET :: "session_user option \<Rightarrow> env \<Rightarrow> store \<Rightarrow> cart_view response \<times> store" where
  "cart_GET session e s =
     (case session of
        None \<Rightarrow> (Failure 401 ''Authentication required'', s)
      | Some u \<Rightarrow>
          (case findOne (\<lambda>c. cart_user c = su_id u) (carts s) of
             None \<Rightarrow>
               (Success \<lparr>v_items = [], itemCount = 0, v_subtotal = 0, v_discount = None,
                         v_discountAmount = 0, v_total = 0\<rparr>,
                s\<lparr>carts := carts s @ [\<lparr>cart_user = su_id u, cart_items = [], appliedDiscount = None\<rparr>]\<rparr>)
           | Some c \<Rightarrow> (Success (cart_view_of (now e) s c), s)))"

text \<open>\<open>POST /api/cart\<close>: add an item, or raise the quantity of an item already there.\<close>

definition cart_POST ::
  "session_user option \<Rightarrow> oid \<Rightarrow> int \<Rightarrow> store \<Rightarrow> (string \<times> int) response \<times> store" where
  "cart_POST session productId quantity s =
     (case session of
        None \<Rightarrow> (Failure 401 ''Authentication required'', s)
      | Some u \<Rightarrow>
          if quantity < 1 then (Failure 400 ''Quantity must be at least 1'', s)
          else
            (case findOne (\<lambda>p. prod_id p = productId) (products s) of
               None \<Rightarrow> (Failure 404 ''Product not found'', s)
             | Some product \<Rightarrow>
                 if \<not> isActive product then (Failure 400 ''Product is not available'', s)
                 else if stock product < quantity then (Failure 400 ''Insufficient stock'', s)
                 else
                   let c = (case findOne (\<lambda>c. cart_user c = su_id u) (carts s) of
                              Some c \<Rightarrow> c
                            | None \<Rightarrow> \<lparr>cart_user = su_id u, cart_items = [], appliedDiscount = None\<rparr>)
                   in (case findOne (\<lambda>i. ci_product i = productId) (cart_items c) of
                         Some existing \<Rightarrow>
                           let newQuantity = ci_quantity existing + quantity
                           in if newQuantity > stock product
                              then (Failure 400 ''Quantity exceeds available stock'', s)
                              else
                                let c' = c\<lparr>cart_items :=
                                           findOneAndUpdate (\<lambda>i. ci_product i = productId)
                                             (\<lambda>i. i\<lparr>ci_quantity := newQuantity\<rparr>) (cart_items c)\<rparr>
                                in (case save_cart c' s of
                                      None \<Rightarrow> (Failure 500 ''Failed to add item to cart'', s)
                                    | Some s' \<Rightarrow>
                                        (Success (''Item added to cart'',
                                           foldl (\<lambda>sum i. sum + ci_quantity i) 0 (cart_items c')), s'))
                       | None \<Rightarrow>
                           let c' = c\<lparr>cart_items := cart_items c @
                                      [\<lparr>ci_product = prod_id product, ci_quantity = quantity,
                                        priceAtAdd = price product\<rparr>]\<rparr>
                           in (case save_cart c' s of
                                 None \<Rightarrow> (Failure 500 ''Failed to add item to cart'', s)
                               | Some s' \<Rightarrow>
                                   (Success (''Item added to cart'',
                                      foldl (\<lambda>sum i. sum + ci_quantity i) 0 (cart_items c')), s')))))"

text \<open>\<open>DELETE /api/cart\<close>: clear the cart.\<close>

definition cart_DELETE :: "session_user option \<Rightarrow> store \<Rightarrow> string response \<times> store" where
  "cart_DELETE session s =
     (case session of
        None \<Rightarrow> (Failure 401 ''Authentication required'', s)
      | Some u \<Rightarrow> (Success ''Cart cleared'', s\<lparr>carts := clear_cart (su_id u) (carts s)\<rparr>))"

text \<open>\<open>PATCH /api/cart/[productId]\<close>: set the quantity of an item.\<close>

definition cart_item_PATCH ::
  "session_user option \<Rightarrow> oid \<Rightarrow> int \<Rightarrow> store \<Rightarrow> string response \<times> store" where
  "cart_item_PATCH session productId quantity s =
     (case session of
        None \<Rightarrow> (Failure 401 ''Authentication required'', s)
      | Some u \<Rightarrow>
          if quantity < 1 then (Failure 400 ''Quantity must be at least 1'', s)
          else
            (case findOne (\<lambda>p. prod_id p = productId) (products s) of
               None \<Rightarrow> (Failure 404 ''Product not found'', s)
             | Some product \<Rightarrow>
                 if quantity > stock product
                 then (Failure 400 ''Quantity exceeds available stock'', s)
                 else
                   (case findOne (\<lambda>c. cart_user c = su_id u) (carts s) of
                      None \<Rightarrow> (Failure 404 ''Cart not found'', s)
                    | Some c \<Rightarrow>
                        (case findOne (\<lambda>i. ci_product i = productId) (cart_items c) of
                           None \<Rightarrow> (Failure 404 ''Item not in cart'', s)
                         | Some _ \<Rightarrow>
                             (case save_cart
                                     (c\<lparr>cart_items :=
                                          findOneAndUpdate (\<lambda>i. ci_product i = productId)
                                            (\<lambda>i. i\<lparr>ci_quantity := quantity\<rparr>) (cart_items c)\<rparr>) s of
                                None \<Rightarrow> (Failure 500 ''Failed to update cart'', s)
                              | Some s' \<Rightarrow> (Success ''Cart updated'', s'))))))"

text \<open>\<open>DELETE /api/cart/[productId]\<close>: remove an item.\<close>

definition cart_item_DELETE :: "session_user option \<Rightarrow> oid \<Rightarrow> store \<Rightarrow> string response \<times> store" where
  "cart_item_DELETE session productId s =
     (case session of
        None \<Rightarrow> (Failure 401 ''Authentication required'', s)
      | Some u \<Rightarrow>
          (case findOne (\<lambda>c. cart_user c = su_id u) (carts s) of
             None \<Rightarrow> (Failure 404 ''Cart not found'', s)
           | Some c \<Rightarrow>
               (case save_cart
                       (c\<lparr>cart_items := filter (\<lambda>i. ci_product i \<noteq> productId) (cart_items c)\<rparr>) s of
                  None \<Rightarrow> (Failure 500 ''Failed to remove item'', s)
                | Some s' \<Rightarrow> (Success ''Item removed from cart'', s'))))"

section \<open>Discount on the cart (\<open>/api/cart/discount\<close>)\<close>

text \<open>
  \<open>POST\<close> applies a code: the code must exist, be unused and not expired, and the cart
  must exist and hold an item. The cart then refers to the code; the code is not written.
  The request's schema upper-cases the code, the handler upper-cases it again, and the
  schema of the collection casts the filter of \<open>findOne\<close>.
\<close>

definition discount_POST ::
  "session_user option \<Rightarrow> env \<Rightarrow> string \<Rightarrow> store \<Rightarrow> discount_info response \<times> store" where
  "discount_POST session e code_text s =
     (case session of
        None \<Rightarrow> (Failure 401 ''Authentication required'', s)
      | Some u \<Rightarrow>
          if code_text = [] then (Failure 400 ''Discount code is required'', s)
          else
            (case findOne (\<lambda>d. code d = toUpperCase (trim (toUpperCase (toUpperCase code_text))))
                    (discounts s) of
               None \<Rightarrow> (Failure 404 ''Invalid discount code'', s)
             | Some discountCode \<Rightarrow>
                 if isUsed discountCode
                 then (Failure 400 ''This discount code has already been used'', s)
                 else if (case expiresAt discountCode of None \<Rightarrow> False | Some x \<Rightarrow> now e > x)
                 then (Failure 400 ''This discount code has expired'', s)
                 else
                   (case findOne (\<lambda>c. cart_user c = su_id u) (carts s) of
                      None \<Rightarrow> (Failure 404 ''Cart not found'', s)
                    | Some c \<Rightarrow>
                        if cart_items c = []
                        then (Failure 400 ''Cannot apply discount to empty cart'', s)
                        else
                          (case save_cart (c\<lparr>appliedDiscount := Some (dc_id discountCode)\<rparr>) s of
                             None \<Rightarrow> (Failure 500 ''Failed to apply discount'', s)
                           | Some s' \<Rightarrow>
                               (Success \<lparr>di_code = code discountCode,
                                         di_percent = dc_discountPercent discountCode\<rparr>, s')))))"

text \<open>\<open>DELETE\<close> removes the applied code from the cart.\<close>

definition discount_DELETE :: "session_user option \<Rightarrow> store \<Rightarrow> string response \<times> store" where
  "discount_DELETE session s =
     (case session of
        None \<Rightarrow> (Failure 401 ''Authentication required'', s)
      | Some u \<Rightarrow>
          (Success ''Discount removed'',
           s\<lparr>carts := findOneAndUpdate (\<lambda>c. cart_user c = su_id u)
                         (\<lambda>c. c\<lparr>appliedDiscount := None\<rparr>) (carts s)\<rparr>))"

section \<open>Checkout quote (\<open>POST /api/checkout\<close>)\<close>

text \<open>
  What the handler asks of its collaborators: the email test of the validation library,
  the lookup or creation of the guest's user by lower-cased email and name (the user's
  identifier, or \<open>None\<close> when it throws), and the creation of the gateway's order for an
  amount in paise (the remote order's identifier, or \<open>None\<close> when the client is not
  configured or the gateway rejects).
\<close>

record externals =
  is_email :: "string \<Rightarrow> bool"
  find_or_create_user :: "string \<Rightarrow> string \<Rightarrow> oid option"
  razorpay_orders_create :: "int \<Rightarrow> string option"

record checkout_body =
  shippingAddress :: shipping_address
  guestEmail :: "string option"
  guestName :: "string option"

record quote =
  q_razorpayOrderId :: string
  q_amount :: rat
  amountInPaise :: int
  q_items :: "order_item list"
  q_subtotal :: rat
  q_discountCode :: "string option"
  q_discountPercent :: rat
  q_discountAmount :: rat
  q_total :: rat
  q_shippingAddress :: shipping_address
  q_userId :: oid

definition toLowerCase_char :: "char \<Rightarrow> char" where
  "toLowerCase_char c =
     (let k = (of_char c :: nat) in if 65 \<le> k \<and> k \<le> 90 then char_of (k + 32) else c)"

definition toLowerCase :: "string \<Rightarrow> string" where
  "toLowerCase str = map toLowerCase_char str"

definition checkoutSchema :: "externals \<Rightarrow> checkout_body \<Rightarrow> bool" where
  "checkoutSchema x body =
     (let a = shippingAddress body
      in 2 \<le> length (sa_name a) \<and> 5 \<le> length (sa_address a) \<and> 2 \<le> length (sa_city a)
         \<and> 2 \<le> length (sa_state a) \<and> 6 \<le> length (sa_pincode a) \<and> 10 \<le> length (sa_phone a)
         \<and> (case guestEmail body of None \<Rightarrow> True | Some m \<Rightarrow> is_email x m)
         \<and> (case guestName body of None \<Rightarrow> True | Some n \<Rightarrow> 2 \<le> length n))"

text \<open>The session's user, or the guest's when there is no session and an email is given.\<close>

definition checkout_user :: "externals \<Rightarrow> session_user option \<Rightarrow> checkout_body \<Rightarrow> oid option option" where
  "checkout_user x session body =
     (case session of
        Some u \<Rightarrow> Some (Some (su_id u))
      | None \<Rightarrow>
          if truthy_string (guestEmail body)
          then (case guestEmail body of
                  None \<Rightarrow> Some None
                | Some m \<Rightarrow>
                    (case find_or_create_user x (toLowerCase m)
                            (if truthy_string (guestName body)
                             then (case guestName body of Some n \<Rightarrow> n | None \<Rightarrow> [])
                             else sa_name (shippingAddress body)) of
                       None \<Rightarrow> None
                     | Some i \<Rightarrow> Some (Some i)))
          else Some None)"

text \<open>
  Validate all items are available and in stock: the loop stops at the first item whose
  product is missing or inactive, or whose quantity exceeds the stock.
\<close>

fun validate_items :: "(cart_item \<times> product option) list \<Rightarrow> string + order_item list" where
  "validate_items [] = Inr []"
| "validate_items ((item, None) # rest) = Inl ''Product Unknown is no longer available''"
| "validate_items ((item, Some p) # rest) =
     (if \<not> isActive p
      then Inl (''Product '' @ (if prod_name p = [] then ''Unknown'' else prod_name p)
                @ '' is no longer available'')
      else if ci_quantity item > stock p then Inl (''Insufficient stock for '' @ prod_name p)
      else (case validate_items rest of
              Inl msg \<Rightarrow> Inl msg
            | Inr validItems \<Rightarrow>
                Inr (\<lparr>oi_product = prod_id p, oi_name = prod_name p, oi_quantity = ci_quantity item,
                      oi_price = price p, oi_image = prod_image p\<rparr> # validItems)))"

definition checkout_POST ::
  "externals \<Rightarrow> session_user option \<Rightarrow> env \<Rightarrow> checkout_body \<Rightarrow> store \<Rightarrow> quote response" where
  "checkout_POST x session e body s =
     (if \<not> checkoutSchema x body then Failure 400 ''Invalid input''
      else
        (case checkout_user x session body of
           None \<Rightarrow> Failure 500 ''Checkout failed''
         | Some None \<Rightarrow> Failure 401 ''Authentication required or provide guest email''
         | Some (Some userId) \<Rightarrow>
             (case findOne (\<lambda>c. cart_user c = userId) (carts s) of
                None \<Rightarrow> Failure 400 ''Cart is empty''
              | Some c \<Rightarrow>
                  if cart_items c = [] then Failure 400 ''Cart is empty''
                  else
                    (case validate_items (populate_items (products s) (cart_items c)) of
                       Inl msg \<Rightarrow> Failure 400 msg
                     | Inr validItems \<Rightarrow>
                         let subtotal =
                               foldl (\<lambda>sum item. sum + oi_price item * of_int (oi_quantity item)) 0
                                 validItems;
                             (discountPercent, discountAmount, discountCode) =
                               (case populate_discount (discounts s) (appliedDiscount c) of
                                  None \<Rightarrow> (0, 0, None)
                                | Some discount \<Rightarrow>
                                    if \<not> isUsed discount \<and> \<not> isExpired (now e) (expiresAt discount)
                                    then (dc_discountPercent discount,
                                          of_int (Math_round
                                            (((subtotal * dc_discountPercent discount) / 100) * 100)) / 100,
                                          Some (code discount))
                                    else (0, 0, None));
                             total = subtotal - discountAmount;
                             paise = Math_round (total * 100)
                         in (case razorpay_orders_create x paise of
                               None \<Rightarrow> Failure 500 ''Checkout failed''
                             | Some remote \<Rightarrow>
                                 Success \<lparr>q_razorpayOrderId = remote, q_amount = total,
                                          amountInPaise = paise, q_items = validItems,
                                          q_subtotal = subtotal, q_discountCode = discountCode,
                                          q_discountPercent = discountPercent,
                                          q_discountAmount = discountAmount, q_total = total,
                                          q_shippingAddress = shippingAddress body,
                                          q_userId = userId\<rparr>)))))"

section \<open>Admin routes (\<open>/api/admin/settings\<close>, \<open>/api/admin/discounts\<close>, \<open>/api/admin/stats\<close>)\<close>

definition is_admin :: "session_user option \<Rightarrow> bool" where
  "is_admin session = (case session of None \<Rightarrow> False | Some u \<Rightarrow> su_role u = ''admin'')"

definition admin_settings_GET :: "session_user option \<Rightarrow> store \<Rightarrow> store_settings response \<times> store" where
  "admin_settings_GET session s =
     (if \<not> is_admin session then (Failure 403 ''Admin access required'', s)
      else let (st, s1) = getStoreSettings s in (Success st, s1))"

text \<open>
  The body of the settings update, as parsed: each field may be absent; the expiry may
  also be null, which removes it.
\<close>

record settings_body =
  sb_nthOrderDiscount :: "int option"
  sb_discountPercent :: "rat option"
  sb_defaultDiscountExpiry :: "int option option"

definition updateSettingsSchema :: "settings_body \<Rightarrow> bool" where
  "updateSettingsSchema body =
     ((case sb_nthOrderDiscount body of None \<Rightarrow> True | Some n \<Rightarrow> 1 \<le> n)
      \<and> (case sb_discountPercent body of None \<Rightarrow> True | Some p \<Rightarrow> 1 \<le> p \<and> p \<le> 100)
      \<and> (case sb_defaultDiscountExpiry body of
            None \<Rightarrow> True | Some None \<Rightarrow> True | Some (Some d) \<Rightarrow> 1 \<le> d))"

record settings_view =
  sv_nthOrderDiscount :: nat
  sv_discountPercent :: rat
  sv_defaultDiscountExpiry :: "int option"

definition admin_settings_PATCH ::
  "session_user option \<Rightarrow> settings_body \<Rightarrow> store \<Rightarrow> settings_view response \<times> store" where
  "admin_settings_PATCH session body s =
     (if \<not> is_admin session then (Failure 403 ''Admin access required'', s)
      else if \<not> updateSettingsSchema body then (Failure 400 ''Invalid input'', s)
      else
        let (st0, s1) = getStoreSettings s;
            st1 = (case sb_nthOrderDiscount body of
                     None \<Rightarrow> st0 | Some n \<Rightarrow> st0\<lparr>nthOrderDiscount := nat n\<rparr>);
            st2 = (case sb_discountPercent body of
                     None \<Rightarrow> st1 | Some p \<Rightarrow> st1\<lparr>discountPercent := p\<rparr>);
            st3 = (case sb_defaultDiscountExpiry body of
                     None \<Rightarrow> st2 | Some d \<Rightarrow> st2\<lparr>defaultDiscountExpiry := d\<rparr>)
        in case save_settings st3 s1 of
             None \<Rightarrow> (Failure 500 ''Failed to update settings'', s1)
           | Some s2 \<Rightarrow>
               (Success \<lparr>sv_nthOrderDiscount = nthOrderDiscount st3,
                         sv_discountPercent = discountPercent st3,
                         sv_defaultDiscountExpiry = defaultDiscountExpiry st3\<rparr>, s2))"

text \<open>\<open>POST /api/admin/discounts\<close>: generate a code by hand.\<close>

record generate_body =
  gb_discountPercent :: "rat option"
  gb_expiryDays :: "int option option"

definition generateDiscountSchema :: "generate_body \<Rightarrow> bool" where
  "generateDiscountSchema body =
     ((case gb_discountPercent body of None \<Rightarrow> True | Some p \<Rightarrow> 1 \<le> p \<and> p \<le> 100)
      \<and> (case gb_expiryDays body of None \<Rightarrow> True | Some None \<Rightarrow> True | Some (Some d) \<Rightarrow> 1 \<le> d))"

definition truthy_days :: "int option \<Rightarrow> bool" where
  "truthy_days d = (case d of None \<Rightarrow> False | Some n \<Rightarrow> n \<noteq> 0)"

text \<open>
  The expiry the handler computes, and the document that it hands to
  \<open>DiscountCode.create\<close>, with the expiry as cast by the schema.
\<close>

definition manual_expiry :: "env \<Rightarrow> store_settings \<Rightarrow> generate_body \<Rightarrow> js_date option" where
  "manual_expiry e st body =
     (let expiryDays = (case gb_expiryDays body of None \<Rightarrow> None | Some d \<Rightarrow> d)
      in if truthy_days expiryDays
         then (case expiryDays of
                 Some d \<Rightarrow> Some (getExpiryDate (localTZA e) (now e) d) | None \<Rightarrow> None)
         else if truthy_days (defaultDiscountExpiry st)
         then (case defaultDiscountExpiry st of
                 Some d \<Rightarrow> Some (getExpiryDate (localTZA e) (now e) d) | None \<Rightarrow> None)
         else None)"

definition manual_discount ::
  "env \<Rightarrow> store_settings \<Rightarrow> generate_body \<Rightarrow> time option \<Rightarrow> discount_code" where
  "manual_discount e st body expires =
     (let percent = (case gb_discountPercent body of
                       None \<Rightarrow> discountPercent st
                     | Some p \<Rightarrow> if p = 0 then discountPercent st else p)
      in \<lparr>dc_id = objectId1 e, code = generateDiscountCode (uuidv4 e),
          dc_discountPercent = percent, isUsed = False, usedBy = None, usedAt = None,
          generatedForOrder = 0, expiresAt = expires\<rparr>)"

definition admin_discounts_POST ::
  "session_user option \<Rightarrow> env \<Rightarrow> generate_body \<Rightarrow> store \<Rightarrow> new_discount_info response \<times> store" where
  "admin_discounts_POST session e body s =
     (if \<not> is_admin session then (Failure 403 ''Admin access required'', s)
      else if \<not> generateDiscountSchema body then (Failure 400 ''Invalid input'', s)
      else
        let (st, s1) = getStoreSettings s
        in case cast_date (manual_expiry e st body) of
             None \<Rightarrow> (Failure 500 ''Failed to generate discount'', s1)
           | Some expires \<Rightarrow>
               (case DiscountCode_create (manual_discount e st body expires) s1 of
                  None \<Rightarrow> (Failure 500 ''Failed to generate discount'', s1)
                | Some (d, s2) \<Rightarrow>
                    (Success \<lparr>nd_code = code d, nd_discountPercent = dc_discountPercent d,
                              nd_expiresAt = expiresAt d\<rparr>, s2)))"

text \<open>
  \<open>PATCH /api/admin/discounts\<close>: change the expiry of a code. The document with the new
  expiry as \<open>save\<close> casts it; \<open>None\<close> when the new expiry is an invalid date.
\<close>

definition with_expiry :: "env \<Rightarrow> int option option \<Rightarrow> discount_code \<Rightarrow> discount_code option" where
  "with_expiry e expiryDays discount =
     (case expiryDays of
        None \<Rightarrow> Some discount
      | Some days \<Rightarrow>
          map_option (\<lambda>expires. discount\<lparr>expiresAt := expires\<rparr>)
            (cast_date
               (if truthy_days days
                then (case days of
                        Some d \<Rightarrow> Some (getExpiryDate (localTZA e) (now e) d) | None \<Rightarrow> None)
                else None)))"

definition admin_discounts_PATCH ::
  "session_user option \<Rightarrow> env \<Rightarrow> oid option \<Rightarrow> int option option \<Rightarrow> store
     \<Rightarrow> (string \<times> time option) response \<times> store" where
  "admin_discounts_PATCH session e discountId expiryDays s =
     (if \<not> is_admin session then (Failure 403 ''Admin access required'', s)
      else
        (case discountId of
           None \<Rightarrow> (Failure 400 ''Discount ID is required'', s)
         | Some i \<Rightarrow>
             (case findOne (\<lambda>d. dc_id d = i) (discounts s) of
                None \<Rightarrow> (Failure 404 ''Discount not found'', s)
              | Some discount \<Rightarrow>
                  (case with_expiry e expiryDays discount of
                     None \<Rightarrow> (Failure 500 ''Failed to update discount'', s)
                   | Some discount' \<Rightarrow>
                       if valid_discount_code discount'
                       then (Success (code discount', expiresAt discount'),
                             s\<lparr>discounts :=
                                 findOneAndUpdate (\<lambda>d. dc_id d = i) (\<lambda>_. discount') (discounts s)\<rparr>)
                       else (Failure 500 ''Failed to update discount'', s)))))"

text \<open>\<open>DELETE /api/admin/discounts\<close>: delete a code.\<close>

definition admin_discounts_DELETE ::
  "session_user option \<Rightarrow> oid option \<Rightarrow> store \<Rightarrow> string response \<times> store" where
  "admin_discounts_DELETE session discountId s =
     (if \<not> is_admin session then (Failure 403 ''Admin access required'', s)
      else
        (case discountId of
           None \<Rightarrow> (Failure 400 ''Discount ID is required'', s)
         | Some i \<Rightarrow>
             (case findOne (\<lambda>d. dc_id d = i) (discounts s) of
                None \<Rightarrow> (Failure 404 ''Discount not found'', s)
              | Some _ \<Rightarrow>
                  (Success ''Discount deleted'',
                   s\<lparr>discounts := findOneAndDelete (\<lambda>d. dc_id d = i) (discounts s)\<rparr>))))"

text \<open>
  \<open>GET /api/admin/stats\<close> reads the orders and the codes and calls \<open>getStoreSettings\<close>;
  of its answer only the counters are kept here.
\<close>

record stats =
  st_totalOrders :: nat
  st_totalRevenue :: rat
  st_totalDiscountGiven :: rat
  st_codes_total :: nat
  st_codes_used :: nat

definition admin_stats_GET :: "session_user option \<Rightarrow> store \<Rightarrow> stats response \<times> store" where
  "admin_stats_GET session s =
     (if \<not> is_admin session then (Failure 403 ''Admin access required'', s)
      else
        let (st, s1) = getStoreSettings s;
            completed = filter (\<lambda>doc. paymentStatus doc = PaymentCompleted) (orders s)
        in (Success \<lparr>st_totalOrders = totalOrders st,
                      st_totalRevenue = sum_list (map order_total completed),
                      st_totalDiscountGiven = sum_list (map order_discountAmount completed),
                      st_codes_total = length (discounts s),
                      st_codes_used = length (filter isUsed (discounts s))\<rparr>, s1))"

section \<open>The operations of the store\<close>

text \<open>
  One constructor per route that writes to the database (or creates the settings document
  when it reads them), and the state each leaves behind. The routes that only read
  products, orders or codes, and the account routes, which write to the users collection
  alone, are not listed.
\<close>

datatype operation =
    CartGet "session_user option" env
  | CartAdd "session_user option" oid int
  | CartClear "session_user option"
  | CartItemSet "session_user option" oid int
  | CartItemRemove "session_user option" oid
  | DiscountApply "session_user option" env string
  | DiscountRemove "session_user option"
  | CheckoutConfirm env confirm_body
  | AdminSettingsGet "session_user option"
  | AdminSettingsUpdate "session_user option" settings_body
  | AdminDiscountGenerate "session_user option" env generate_body
  | AdminDiscountExpiry "session_user option" env "oid option" "int option option"
  | AdminDiscountDelete "session_user option" "oid option"
  | AdminStats "session_user option"

fun step :: "operation \<Rightarrow> store \<Rightarrow> store" where
  "step (CartGet session e) s = snd (cart_GET session e s)"
| "step (CartAdd session productId quantity) s = snd (cart_POST session productId quantity s)"
| "step (CartClear session) s = snd (cart_DELETE session s)"
| "step (CartItemSet session productId quantity) s =
     snd (cart_item_PATCH session productId quantity s)"
| "step (CartItemRemove session productId) s = snd (cart_item_DELETE session productId s)"
| "step (DiscountApply session e code_text) s = snd (discount_POST session e code_text s)"
| "step (DiscountRemove session) s = snd (discount_DELETE session s)"
| "step (CheckoutConfirm e body) s = snd (checkout_PUT e body s)"
| "step (AdminSettingsGet session) s = snd (admin_settings_GET session s)"
| "step (AdminSettingsUpdate session body) s = snd (admin_settings_PATCH session body s)"
| "step (AdminDiscountGenerate session e body) s = snd (admin_discounts_POST session e body s)"
| "step (AdminDiscountExpiry session e discountId expiryDays) s =
     snd (admin_discounts_PATCH session e discountId expiryDays s)"
| "step (AdminDiscountDelete session discountId) s =
     snd (admin_discounts_DELETE session discountId s)"
| "step (AdminStats session) s = snd (admin_stats_GET session s)"

fun run :: "operation list \<Rightarrow> store \<Rightarrow> store" where
  "run [] s = s"
| "run (op # ops) s = run ops (step op s)"

text \<open>
  A store is reachable when a sequence of operations leads to it from a store without
  orders.
\<close>

inductive reachable :: "store \<Rightarrow> bool" where
  initial: "orders s = [] \<Longrightarrow> reachable s"
| after: "reachable s \<Longrightarrow> reachable (step op s)"

text \<open>The value of the order counter: what \<open>getStoreSettings\<close> would return.\<close>

definition order_counter :: "store \<Rightarrow> nat" where
  "order_counter s = totalOrders (fst (getStoreSettings s))"

section \<open>Auxiliary definitions for the properties\<close>

text \<open>
  The settings document after a confirmation has counted its order, and the store after
  the writes of a confirmation that come before the reward code.
\<close>

definition settings_after :: "store \<Rightarrow> store_settings" where
  "settings_after s =
     (fst (getStoreSettings s))\<lparr>totalOrders := totalOrders (fst (getStoreSettings s)) + 1\<rparr>"

definition confirmed_store :: "env \<Rightarrow> confirm_body \<Rightarrow> store \<Rightarrow> store" where
  "confirmed_store e body s =
     s\<lparr>settings := Some (settings_after s),
       orders := orders s @ [order_of_body e body (totalOrders (settings_after s))],
       discounts := mark_discount_used (b_discountCode body) (b_userId body) (now e) (discounts s),
       products := decrement_stock (b_items body) (products s),
       carts := clear_cart (b_userId body) (carts s)\<rparr>"

fun is_confirmation :: "operation \<Rightarrow> bool" where
  "is_confirmation (CheckoutConfirm e body) = True"
| "is_confirmation _ = False"

fun succeeded :: "'a response \<Rightarrow> bool" where
  "succeeded (Success x) = True"
| "succeeded (Failure code_number msg) = False"

section \<open>Example data\<close>

text \<open>
  A shop with one product in stock once, two customers with that product in their carts,
  and the requests used in the worked examples below.
\<close>

definition bottle :: product where
  "bottle = \<lparr>prod_id = 1, prod_name = ''Bottle'', price = 699, prod_image = ''bottle.png'',
     stock = 1, isActive = True\<rparr>"

definition bottle_line :: order_item where
  "bottle_line = \<lparr>oi_product = 1, oi_name = ''Bottle'', oi_quantity = 1, oi_price = 699,
     oi_image = ''bottle.png''\<rparr>"

definition cart_of :: "oid \<Rightarrow> cart" where
  "cart_of u = \<lparr>cart_user = u,
     cart_items = [\<lparr>ci_product = 1, ci_quantity = 1, priceAtAdd = 699\<rparr>],
     appliedDiscount = None\<rparr>"

definition shop :: "store_settings option \<Rightarrow> store" where
  "shop st = \<lparr>products = [bottle], carts = [cart_of 7, cart_of 8], discounts = [], orders = [],
     settings = st\<rparr>"

definition body_of :: "oid \<Rightarrow> string \<Rightarrow> confirm_body" where
  "body_of u pay = \<lparr>razorpayOrderId = Some ''order_1'', razorpayPaymentId = Some pay,
     b_items = [bottle_line], b_subtotal = 699, b_discountCode = None, b_discountPercent = 0,
     b_discountAmount = 0, b_total = 699, b_shippingAddress = None, b_userId = u\<rparr>"

definition env_a :: env where
  "env_a = \<lparr>now = 1000, localTZA = (\<lambda>t isUTC. 0),
     uuidv4 = ''3f2a9b1c-7d4e-4a6b-8c9d-0e1f2a3b4c5d'', objectId1 = 100, objectId2 = 101\<rparr>"

definition env_b :: env where
  "env_b = \<lparr>now = 2000, localTZA = (\<lambda>t isUTC. 0),
     uuidv4 = ''a81bc81b-dead-4e5d-abff-90865d1e13b1'', objectId1 = 102, objectId2 = 103\<rparr>"

text \<open>
  A host on the clock of New York, whose offset goes from minus four to minus five hours
  on 1 November 2026 at 06:00 universal time (02:00 on the local clock), and a request
  that arrives there on 20 October 2026 at 12:00 universal time.
\<close>

definition new_york_2026 :: "time \<Rightarrow> bool \<Rightarrow> int" where
  "new_york_2026 t isUTC =
     (if t < (if isUTC then 1793512800000 else 1793498400000) then - 14400000 else - 18000000)"

definition env_autumn :: env where
  "env_autumn = env_a\<lparr>now := 1792497600000, localTZA := new_york_2026\<rparr>"

definition every_order :: store_settings where
  "every_order = \<lparr>nthOrderDiscount = 1, discountPercent = 10, totalOrders = 0,
     defaultDiscountExpiry = None\<rparr>"

definition fifth_next :: store_settings where
  "fifth_next = \<lparr>nthOrderDiscount = 5, discountPercent = 10, totalOrders = 4,
     defaultDiscountExpiry = Some 30\<rparr>"

definition replayed :: store where
  "replayed = run [CheckoutConfirm env_a (body_of 7 ''pay_1''),
                   CheckoutConfirm env_b (body_of 7 ''pay_1'')] (shop (Some every_order))"

definition used_code :: discount_code where
  "used_code = \<lparr>dc_id = 50, code = ''UNIBLOX-AAAA-BBBB'', dc_discountPercent = 10, isUsed = True,
     usedBy = Some 7, usedAt = Some 500, generatedForOrder = 5, expiresAt = None\<rparr>"

definition body_with_code :: confirm_body where
  "body_with_code = (body_of 8 ''pay_2'')\<lparr>b_discountCode := Some ''UNIBLOX-AAAA-BBBB'',
     b_discountPercent := 10, b_discountAmount := 699 / 10, b_total := 6291 / 10\<rparr>"

definition body_cheap :: confirm_body where
  "body_cheap = (body_of 7 ''pay_1'')\<lparr>b_total := 1\<rparr>"

definition first_sale :: store where
  "first_sale = snd (checkout_PUT env_a (body_of 7 ''pay_1'') (shop None))"

definition second_sale :: store where
  "second_sale = snd (checkout_PUT env_b (body_of 8 ''pay_2'') first_sale)"

definition fifth_sale :: store where
  "fifth_sale = snd (checkout_PUT env_a (body_of 7 ''pay_1'') (shop (Some fifth_next)))"

definition autumn_sale :: store where
  "autumn_sale = snd (checkout_PUT env_autumn (body_of 7 ''pay_1'') (shop (Some fifth_next)))"

definition receipt :: "oid \<Rightarrow> nat \<Rightarrow> rat \<Rightarrow> string \<Rightarrow> new_discount_info option \<Rightarrow> confirm_result" where
  "receipt i n t pay nd =
     \<lparr>r_orderId = i, r_orderNumber = n, r_total = t, r_status = Processing,
      r_paymentId = Some pay, newDiscountCode = nd\<rparr>"

definition open_code :: discount_code where
  "open_code = used_code\<lparr>isUsed := False, usedBy := None, usedAt := None,
     expiresAt := Some 5000\<rparr>"

definition shop_with :: "discount_code \<Rightarrow> oid option \<Rightarrow> store" where
  "shop_with d applied =
     (shop None)\<lparr>discounts := [d], carts := [(cart_of 7)\<lparr>appliedDiscount := applied\<rparr>, cart_of 8]\<rparr>"

definition customer :: "oid \<Rightarrow> session_user" where
  "customer u = \<lparr>su_id = u, su_role = ''customer''\<rparr>"

definition admin :: session_user where
  "admin = \<lparr>su_id = 1, su_role = ''admin''\<rparr>"

definition home_address :: shipping_address where
  "home_address = \<lparr>sa_name = ''Asha Rao'', sa_address = ''12 Lake Road'', sa_city = ''Pune'',
     sa_state = ''Maharashtra'', sa_pincode = ''411001'', sa_phone = ''9876543210''\<rparr>"

definition quote_request :: checkout_body where
  "quote_request = \<lparr>shippingAddress = home_address, guestEmail = None, guestName = None\<rparr>"

definition gateway_up :: externals where
  "gateway_up = \<lparr>is_email = (\<lambda>_. True), find_or_create_user = (\<lambda>_ _. None),
     razorpay_orders_create = (\<lambda>_. Some ''order_1'')\<rparr>"

section \<open>Properties of the pricing functions\<close>

subsection \<open>Rounding to the nearest double\<close>













lemma round_half_even_of_int [simp]: "round_half_even (of_int n) = n"
  by (simp add: round_half_even_def Let_def)


lemma floor_rat_numeral [simp]:
  "\<lfloor>numeral a / numeral b :: rat\<rfloor> = numeral a div numeral b"
  using floor_divide_of_int_eq [of "numeral a" "numeral b", where ?'a = rat] by simp

lemma floor_rat_one_numeral [simp]:
  "\<lfloor>1 / numeral b :: rat\<rfloor> = 1 div numeral b"
  using floor_divide_of_int_eq [of 1 "numeral b", where ?'a = rat] by simp

lemma fl_zero [simp]: "fl 0 = Finite 0"
  by (simp add: fl_def)
















subsection \<open>The discount amount and the total\<close>









section \<open>Properties of the routes\<close>

lemma length_findOneAndUpdate [simp]: "length (findOneAndUpdate P f docs) = length docs"
  by (induction docs) simp_all


lemma checkout_PUT_SuccessD:
  assumes "checkout_PUT e body s = (Success r, s')"
  shows "truthy_string (razorpayPaymentId body) \<and> truthy_string (razorpayOrderId body)
    \<and> valid_settings (settings_after s)
    \<and> valid_order (order_of_body e body (totalOrders (settings_after s)))
    \<and> totalOrders (settings_after s) \<notin> set (map orderNumber (orders s))
    \<and> (if isNthOrder (totalOrders (settings_after s)) (nthOrderDiscount (settings_after s))
       then \<exists>expires d.
                cast_date (nth_order_expiry e (settings_after s)) = Some expires
                \<and> DiscountCode_create
                   (nth_order_discount e (settings_after s) (totalOrders (settings_after s)) expires)
                   (confirmed_store e body s) = Some (d, s')
                \<and> r = confirm_response (order_of_body e body (totalOrders (settings_after s)))
                      (Some \<lparr>nd_code = code d, nd_discountPercent = dc_discountPercent d,
                             nd_expiresAt = expiresAt d\<rparr>)
       else s' = confirmed_store e body s
            \<and> r = confirm_response (order_of_body e body (totalOrders (settings_after s))) None)"
  using assms
  unfolding checkout_PUT_def settings_after_def confirmed_store_def getStoreSettings_def
    save_settings_def Order_create_def
  by (auto simp: Let_def order_of_body_def split: if_splits option.splits prod.splits)


lemma order_counter_alt:
  "order_counter s = (case settings s of None \<Rightarrow> 0 | Some st \<Rightarrow> totalOrders st)"
  by (simp add: order_counter_def getStoreSettings_def default_settings_def split: option.splits)

lemma save_cart_frame:
  "save_cart c s = Some s' \<Longrightarrow>
     orders s' = orders s \<and> settings s' = settings s \<and> discounts s' = discounts s
     \<and> products s' = products s"
  by (auto simp: save_cart_def split: if_splits)

lemma getStoreSettings_frame:
  "orders (snd (getStoreSettings s)) = orders s
   \<and> order_counter (snd (getStoreSettings s)) = order_counter s"
  by (simp add: getStoreSettings_def order_counter_def default_settings_def split: option.splits)

lemma cart_GET_frame:
  "orders (snd (cart_GET session e s)) = orders s
   \<and> settings (snd (cart_GET session e s)) = settings s"
  by (simp add: cart_GET_def split: option.splits)

lemma cart_DELETE_frame:
  "orders (snd (cart_DELETE session s)) = orders s
   \<and> settings (snd (cart_DELETE session s)) = settings s"
  by (simp add: cart_DELETE_def split: option.splits)

lemma cart_item_PATCH_frame:
  "orders (snd (cart_item_PATCH session productId quantity s)) = orders s
   \<and> settings (snd (cart_item_PATCH session productId quantity s)) = settings s"
  by (auto simp: cart_item_PATCH_def dest: save_cart_frame split: option.splits)

lemma cart_item_DELETE_frame:
  "orders (snd (cart_item_DELETE session productId s)) = orders s
   \<and> settings (snd (cart_item_DELETE session productId s)) = settings s"
  by (auto simp: cart_item_DELETE_def dest: save_cart_frame split: option.splits)

lemma discount_POST_frame:
  "orders (snd (discount_POST session e code_text s)) = orders s
   \<and> settings (snd (discount_POST session e code_text s)) = settings s
   \<and> discounts (snd (discount_POST session e code_text s)) = discounts s"
  by (auto simp: discount_POST_def dest: save_cart_frame split: option.splits)

lemma discount_DELETE_frame:
  "orders (snd (discount_DELETE session s)) = orders s
   \<and> settings (snd (discount_DELETE session s)) = settings s
   \<and> discounts (snd (discount_DELETE session s)) = discounts s"
  by (simp add: discount_DELETE_def split: option.splits)

lemma admin_settings_GET_frame:
  "orders (snd (admin_settings_GET session s)) = orders s
   \<and> order_counter (snd (admin_settings_GET session s)) = order_counter s"
  by (simp add: admin_settings_GET_def getStoreSettings_def order_counter_def
      default_settings_def split: option.splits)

lemma admin_settings_PATCH_frame:
  "orders (snd (admin_settings_PATCH session body s)) = orders s
   \<and> order_counter (snd (admin_settings_PATCH session body s)) = order_counter s"
  by (simp add: admin_settings_PATCH_def getStoreSettings_def save_settings_def order_counter_def
      default_settings_def Let_def split: option.splits)

lemma DiscountCode_create_frame:
  "DiscountCode_create doc s = Some (d, s') \<Longrightarrow>
     s' = s\<lparr>discounts := discounts s @ [d]\<rparr> \<and> d = doc\<lparr>code := toUpperCase (trim (code doc))\<rparr>
     \<and> valid_discount_code d"
  by (auto simp: DiscountCode_create_def Let_def split: if_splits)

lemma admin_discounts_POST_frame:
  "orders (snd (admin_discounts_POST session e body s)) = orders s
   \<and> order_counter (snd (admin_discounts_POST session e body s)) = order_counter s"
proof -
  obtain st s1 where g: "getStoreSettings s = (st, s1)" by force
  with getStoreSettings_frame [of s]
  have s1: "orders s1 = orders s" "order_counter s1 = order_counter s" by simp_all
  show ?thesis
    using s1
    by (auto simp: admin_discounts_POST_def g order_counter_alt
        dest!: DiscountCode_create_frame split: option.splits)
qed

lemma admin_discounts_PATCH_frame:
  "orders (snd (admin_discounts_PATCH session e discountId expiryDays s)) = orders s
   \<and> settings (snd (admin_discounts_PATCH session e discountId expiryDays s)) = settings s"
  by (simp add: admin_discounts_PATCH_def Let_def split: option.splits)

lemma admin_discounts_DELETE_frame:
  "orders (snd (admin_discounts_DELETE session discountId s)) = orders s
   \<and> settings (snd (admin_discounts_DELETE session discountId s)) = settings s"
  by (simp add: admin_discounts_DELETE_def split: option.splits)

lemma admin_stats_GET_frame:
  "orders (snd (admin_stats_GET session s)) = orders s
   \<and> order_counter (snd (admin_stats_GET session s)) = order_counter s"
  by (simp add: admin_stats_GET_def getStoreSettings_def order_counter_def
      default_settings_def Let_def split: option.splits)

lemma cart_POST_frame:
  "orders (snd (cart_POST session productId quantity s)) = orders s
   \<and> settings (snd (cart_POST session productId quantity s)) = settings s"
  unfolding cart_POST_def Let_def
  by (simp add: save_cart_def split: option.splits)

lemma step_frame:
  "\<not> is_confirmation op \<Longrightarrow>
     orders (step op s) = orders s \<and> order_counter (step op s) = order_counter s"
proof (cases op)
  case (CartGet session e)
  then show ?thesis using cart_GET_frame [of session e s]
    by (simp add: order_counter_alt)
next
  case (CartAdd session productId quantity)
  then show ?thesis using cart_POST_frame [of session productId quantity s]
    by (simp add: order_counter_alt)
next
  case (CartClear session)
  then show ?thesis using cart_DELETE_frame [of session s]
    by (simp add: order_counter_alt)
next
  case (CartItemSet session productId quantity)
  then show ?thesis using cart_item_PATCH_frame [of session productId quantity s]
    by (simp add: order_counter_alt)
next
  case (CartItemRemove session productId)
  then show ?thesis using cart_item_DELETE_frame [of session productId s]
    by (simp add: order_counter_alt)
next
  case (DiscountApply session e code_text)
  then show ?thesis using discount_POST_frame [of session e code_text s]
    by (simp add: order_counter_alt)
next
  case (DiscountRemove session)
  then show ?thesis using discount_DELETE_frame [of session s]
    by (simp add: order_counter_alt)
next
  case (AdminDiscountExpiry session e discountId expiryDays)
  then show ?thesis using admin_discounts_PATCH_frame [of session e discountId expiryDays s]
    by (simp add: order_counter_alt)
next
  case (AdminDiscountDelete session discountId)
  then show ?thesis using admin_discounts_DELETE_frame [of session discountId s]
    by (simp add: order_counter_alt)
qed (simp_all add: admin_settings_GET_frame admin_settings_PATCH_frame
      admin_discounts_POST_frame admin_stats_GET_frame)

lemma checkout_PUT_orders:
  "orders (snd (checkout_PUT e body s)) = orders s
   \<or> (\<exists>doc. orders (snd (checkout_PUT e body s)) = orders s @ [doc]
        \<and> orderNumber doc \<notin> set (map orderNumber (orders s)))"
  unfolding checkout_PUT_def getStoreSettings_def save_settings_def Order_create_def
  by (auto simp: Let_def order_of_body_def dest!: DiscountCode_create_frame
      split: if_splits option.splits prod.splits)

lemma step_distinct_orders:
  "distinct (map orderNumber (orders s)) \<Longrightarrow> distinct (map orderNumber (orders (step op s)))"
proof (cases "is_confirmation op")
  case False
  assume "distinct (map orderNumber (orders s))"
  with False show ?thesis by (simp add: step_frame)
next
  case True
  assume d: "distinct (map orderNumber (orders s))"
  from True obtain e body where op: "op = CheckoutConfirm e body"
    by (cases op) simp_all
  from checkout_PUT_orders [of e body s] d show ?thesis
    unfolding op by auto
qed

lemma reachable_distinct_orders: "reachable s \<Longrightarrow> distinct (map orderNumber (orders s))"
  by (induction rule: reachable.induct) (simp_all add: step_distinct_orders)

lemma reachable_run: "reachable s \<Longrightarrow> reachable (run ops s)"
  by (induction ops arbitrary: s) (simp_all add: reachable.after)

lemma checkout_PUT_Success_fields:
  assumes "checkout_PUT e body s = (Success r, s')"
  shows "settings s' = Some (settings_after s)"
    and "orders s' = orders s @ [order_of_body e body (order_counter s + 1)]"
    and "products s' = decrement_stock (b_items body) (products s)"
    and "carts s' = clear_cart (b_userId body) (carts s)"
    and "r = confirm_response (order_of_body e body (order_counter s + 1)) (newDiscountCode r)"
    and "order_counter s + 1 \<notin> set (map orderNumber (orders s))"
  using checkout_PUT_SuccessD [OF assms]
  by (auto simp: confirmed_store_def settings_after_def order_counter_def confirm_response_def
      dest!: DiscountCode_create_frame split: if_splits)

text \<open>
  Claim C9. No operation other than the order confirmation changes the order counter
  \<open>totalOrders\<close>; a confirmation that succeeds raises it by exactly one and gives the new
  value to its order as the order number; the admin settings update leaves the counter
  as it was.
\<close>

theorem totalOrders_changed_only_by_confirmation:
  assumes "\<not> is_confirmation op" and "checkout_PUT e body s = (Success r, s')"
  shows "order_counter (step op s) = order_counter s
    \<and> order_counter (snd (admin_settings_PATCH session sb s)) = order_counter s
    \<and> order_counter s' = order_counter s + 1
    \<and> r_orderNumber r = order_counter s'
    \<and> orders s' = orders s @ [order_of_body e body (order_counter s')]"
proof -
  have c: "order_counter s' = order_counter s + 1"
    using checkout_PUT_Success_fields(1) [OF assms(2)]
    by (simp add: order_counter_alt settings_after_def getStoreSettings_def default_settings_def
        split: option.splits)
  have "r_orderNumber r = order_counter s + 1"
    using checkout_PUT_Success_fields(5) [OF assms(2)]
    by (metis confirm_response_def confirm_result.select_convs(2) order.select_convs(3)
        order_of_body_def)
  with c checkout_PUT_Success_fields(2) [OF assms(2)] step_frame [OF assms(1), of s]
    admin_settings_PATCH_frame [of session sb s]
  show ?thesis by simp
qed

lemma length_mark_discount_used [simp]:
  "length (mark_discount_used c u t docs) = length docs"
  by (simp add: mark_discount_used_def)

text \<open>
  Claim C1, as the code has it. In a store reached by the operations from a store without
  orders, each confirmation that succeeds adds exactly one order, which carries the
  payment identifier of the request and an order number that no earlier order has,
  decrements the stock once per line item and adds at most one discount code; the order
  numbers stay pairwise distinct. The payment identifier is stored, not checked.
\<close>

theorem confirmation_adds_one_numbered_order:
  assumes "reachable s" and "checkout_PUT e body s = (Success r, s')"
  shows "(\<exists>doc. orders s' = orders s @ [doc] \<and> paymentId doc = razorpayPaymentId body
            \<and> orderNumber doc = r_orderNumber r
            \<and> orderNumber doc \<notin> set (map orderNumber (orders s)))
    \<and> products s' = decrement_stock (b_items body) (products s)
    \<and> length (discounts s') \<le> length (discounts s) + 1
    \<and> reachable s'
    \<and> distinct (map orderNumber (orders s'))"
proof -
  have r: "reachable s'"
    using reachable.after [OF assms(1), of "CheckoutConfirm e body"] assms(2) by simp
  have n: "r_orderNumber r = order_counter s + 1"
    using checkout_PUT_Success_fields(5) [OF assms(2)]
    by (metis confirm_response_def confirm_result.select_convs(2) order.select_convs(3)
        order_of_body_def)
  have "length (discounts s') \<le> length (discounts s) + 1"
    using checkout_PUT_SuccessD [OF assms(2)]
    by (auto simp: confirmed_store_def dest!: DiscountCode_create_frame split: if_splits)
  with r n checkout_PUT_Success_fields(2,3,6) [OF assms(2)] reachable_distinct_orders [OF r]
  show ?thesis
    by (simp add: order_of_body_def)
qed

text \<open>
  Claim C1 as stated fails: the same confirmed payment delivered twice to a shop that
  rewards every order leaves two orders with the same payment identifier, two stock
  decrements (from 1 to minus 1) and two generated codes.
\<close>

theorem replayed_confirmation_counterexample:
  "reachable replayed
   \<and> map paymentId (orders replayed) = [Some ''pay_1'', Some ''pay_1'']
   \<and> map orderNumber (orders replayed) = [1, 2]
   \<and> map stock (products (shop (Some every_order))) = [1]
   \<and> map stock (products replayed) = [- 1]
   \<and> map generatedForOrder (discounts replayed) = [1, 2]"
proof -
  have "reachable (shop (Some every_order))"
    by (rule reachable.initial) (simp add: shop_def)
  then have "reachable replayed"
    unfolding replayed_def by (rule reachable_run)
  moreover have "map paymentId (orders replayed) = [Some ''pay_1'', Some ''pay_1'']"
    by code_simp
  moreover have "map orderNumber (orders replayed) = [1, 2]"
    by code_simp
  moreover have "map stock (products (shop (Some every_order))) = [1]"
    by code_simp
  moreover have "map stock (products replayed) = [- 1]"
    by code_simp
  moreover have "map generatedForOrder (discounts replayed) = [1, 2]"
    by code_simp
  ultimately show ?thesis by blast
qed

text \<open>
  Claim C2, as the code has it. The order that a successful confirmation stores carries
  the items, subtotal, discount fields and total of the request body, and the response
  echoes that total; the stock is decremented by the quantities of the body; the stored
  cart is not read, only cleared: with any other carts collection the response is the
  same and the stores differ in the carts alone.
\<close>

theorem confirmation_persists_caller_fields:
  assumes "checkout_PUT e body s = (Success r, s')"
  shows "(\<exists>doc. orders s' = orders s @ [doc] \<and> order_user doc = b_userId body
            \<and> order_items doc = b_items body \<and> order_subtotal doc = b_subtotal body
            \<and> order_discountPercent doc = b_discountPercent body
            \<and> order_discountAmount doc = b_discountAmount body
            \<and> order_total doc = b_total body)
    \<and> r_total r = b_total body
    \<and> products s' = decrement_stock (b_items body) (products s)
    \<and> checkout_PUT e body (s\<lparr>carts := cs\<rparr>)
        = (Success r, s'\<lparr>carts := clear_cart (b_userId body) cs\<rparr>)"
proof -
  have "r_total r = b_total body"
    using checkout_PUT_Success_fields(5) [OF assms]
    by (metis confirm_response_def confirm_result.select_convs(3) order.select_convs(9)
        order_of_body_def)
  moreover have "checkout_PUT e body (s\<lparr>carts := cs\<rparr>)
        = (Success r, s'\<lparr>carts := clear_cart (b_userId body) cs\<rparr>)"
    using assms
    unfolding checkout_PUT_def getStoreSettings_def save_settings_def Order_create_def
      DiscountCode_create_def
    by (auto simp: Let_def split: if_splits option.splits prod.splits)
  ultimately show ?thesis
    using checkout_PUT_Success_fields(2,3) [OF assms]
    by (simp add: order_of_body_def)
qed

lemma getExpiryDate_eq:
  "getExpiryDate tza current days =
     TimeClip (current + tza current True + days * 86400000
                 - tza (current + tza current True + days * 86400000) False)"
proof -
  have "MakeDate (Day t + days) (TimeWithinDay t) = t + days * 86400000" for t
    by (simp add: MakeDate_def Day_def TimeWithinDay_def msPerDay_def algebra_simps)
  then show ?thesis
    by (simp add: getExpiryDate_def LocalTime_def UTC_def Let_def)
qed

lemma getExpiryDate_fixed_offset:
  assumes "\<And>t isUTC. tza t isUTC = z"
  shows "getExpiryDate tza current days = TimeClip (current + days * 86400000)"
  by (simp add: getExpiryDate_eq assms)

lemma cast_date_SomeD:
  "cast_date v = Some x \<Longrightarrow> map_option Date x = v"
  by (auto simp: cast_date_def split: option.splits js_date.splits)

text \<open>
  Claim C5. A successful confirmation that allocates order number \<open>k\<close> adds a discount
  code exactly when \<open>k mod N = 0\<close>, \<open>N\<close> being the reward interval of the settings (5 when
  the settings document is created by default). The new code is unused, carries the
  settings' discount percent and the order number \<open>k\<close>, and is returned in the response.
  It never expires when no default expiry is configured; otherwise it expires the
  configured number of days after now, counted as days of the host's local calendar: the
  expiry is the instant at which the local clock, moved forward by that many times 24
  hours, shows what it shows now, a valid date, and it is now plus that many times
  86400000 milliseconds when the host's offset is the same at both ends. Otherwise no
  code is added and the response carries none.
\<close>

theorem reward_code_every_nth_order:
  assumes "checkout_PUT e body s = (Success r, s')"
  shows "r_orderNumber r = order_counter s + 1
    \<and> (settings s = None \<longrightarrow> nthOrderDiscount (fst (getStoreSettings s)) = 5)
    \<and> ((order_counter s + 1) mod nthOrderDiscount (fst (getStoreSettings s)) = 0 \<longrightarrow>
         (\<exists>d. discounts s'
                = mark_discount_used (b_discountCode body) (b_userId body) (now e) (discounts s) @ [d]
              \<and> \<not> isUsed d
              \<and> dc_discountPercent d = discountPercent (fst (getStoreSettings s))
              \<and> generatedForOrder d = order_counter s + 1
              \<and> map_option Date (expiresAt d)
                  = (case defaultDiscountExpiry (fst (getStoreSettings s)) of
                       None \<Rightarrow> None
                     | Some days \<Rightarrow> Some (getExpiryDate (localTZA e) (now e) days))
              \<and> expiresAt d
                  = (case defaultDiscountExpiry (fst (getStoreSettings s)) of
                       None \<Rightarrow> None
                     | Some days \<Rightarrow>
                         Some (now e + localTZA e (now e) True + days * 86400000
                                 - localTZA e (now e + localTZA e (now e) True + days * 86400000)
                                     False))
              \<and> (\<forall>days. defaultDiscountExpiry (fst (getStoreSettings s)) = Some days
                     \<and> localTZA e (now e + localTZA e (now e) True + days * 86400000) False
                         = localTZA e (now e) True
                     \<longrightarrow> expiresAt d = Some (now e + days * 86400000))
              \<and> newDiscountCode r
                  = Some \<lparr>nd_code = code d, nd_discountPercent = dc_discountPercent d,
                           nd_expiresAt = expiresAt d\<rparr>))
    \<and> ((order_counter s + 1) mod nthOrderDiscount (fst (getStoreSettings s)) \<noteq> 0 \<longrightarrow>
         discounts s'
           = mark_discount_used (b_discountCode body) (b_userId body) (now e) (discounts s)
         \<and> newDiscountCode r = None)"
proof -
  let ?st = "fst (getStoreSettings s)"
  let ?k = "order_counter s + 1"
  let ?local = "\<lambda>days. now e + localTZA e (now e) True + days * 86400000"
  note D = checkout_PUT_SuccessD [OF assms]
  have n: "r_orderNumber r = ?k"
    using checkout_PUT_Success_fields(5) [OF assms]
    by (metis confirm_response_def confirm_result.select_convs(2) order.select_convs(3)
        order_of_body_def)
  have five: "settings s = None \<longrightarrow> nthOrderDiscount ?st = 5"
    by (simp add: getStoreSettings_def default_settings_def)
  have v: "valid_settings (settings_after s)"
    using D by simp
  then have pos: "1 \<le> nthOrderDiscount ?st"
    by (simp add: valid_settings_def settings_after_def)
  have nth: "isNthOrder (totalOrders (settings_after s)) (nthOrderDiscount (settings_after s))
      \<longleftrightarrow> ?k mod nthOrderDiscount ?st = 0"
    using pos by (simp add: isNthOrder_def settings_after_def order_counter_def)
  have days: "defaultDiscountExpiry ?st = Some d \<Longrightarrow> d \<noteq> 0" for d
    using v by (auto simp: valid_settings_def settings_after_def)
  have expiry: "nth_order_expiry e (settings_after s)
      = (case defaultDiscountExpiry ?st of
           None \<Rightarrow> None
         | Some days \<Rightarrow> Some (getExpiryDate (localTZA e) (now e) days))"
    using days by (auto simp: nth_order_expiry_def settings_after_def split: option.splits)
  have mint: "?k mod nthOrderDiscount ?st = 0 \<longrightarrow>
         (\<exists>d. discounts s'
                = mark_discount_used (b_discountCode body) (b_userId body) (now e) (discounts s) @ [d]
              \<and> \<not> isUsed d
              \<and> dc_discountPercent d = discountPercent ?st
              \<and> generatedForOrder d = ?k
              \<and> map_option Date (expiresAt d)
                  = (case defaultDiscountExpiry ?st of
                       None \<Rightarrow> None
                     | Some days \<Rightarrow> Some (getExpiryDate (localTZA e) (now e) days))
              \<and> expiresAt d
                  = (case defaultDiscountExpiry ?st of
                       None \<Rightarrow> None
                     | Some days \<Rightarrow> Some (?local days - localTZA e (?local days) False))
              \<and> (\<forall>days. defaultDiscountExpiry ?st = Some days
                     \<and> localTZA e (?local days) False = localTZA e (now e) True
                     \<longrightarrow> expiresAt d = Some (now e + days * 86400000))
              \<and> newDiscountCode r
                  = Some \<lparr>nd_code = code d, nd_discountPercent = dc_discountPercent d,
                           nd_expiresAt = expiresAt d\<rparr>)"
  proof
    assume "?k mod nthOrderDiscount ?st = 0"
    with nth D obtain x d where
      x: "cast_date (nth_order_expiry e (settings_after s)) = Some x"
      and c: "DiscountCode_create
            (nth_order_discount e (settings_after s) (totalOrders (settings_after s)) x)
            (confirmed_store e body s) = Some (d, s')"
      and r: "r = confirm_response (order_of_body e body (totalOrders (settings_after s)))
                (Some \<lparr>nd_code = code d, nd_discountPercent = dc_discountPercent d,
                       nd_expiresAt = expiresAt d\<rparr>)"
      by auto
    from DiscountCode_create_frame [OF c]
    have s': "s' = (confirmed_store e body s)\<lparr>discounts := discounts (confirmed_store e body s) @ [d]\<rparr>"
      and d: "d = (nth_order_discount e (settings_after s) (totalOrders (settings_after s)) x)
                  \<lparr>code := toUpperCase (trim (code (nth_order_discount e (settings_after s)
                      (totalOrders (settings_after s)) x)))\<rparr>"
      by simp_all
    have ex: "expiresAt d = x"
      by (subst d) (simp add: nth_order_discount_def)
    have e1: "map_option Date (expiresAt d)
        = (case defaultDiscountExpiry ?st of
             None \<Rightarrow> None
           | Some days \<Rightarrow> Some (getExpiryDate (localTZA e) (now e) days))"
      using cast_date_SomeD [OF x] by (simp add: ex expiry)
    have e2: "expiresAt d
        = (case defaultDiscountExpiry ?st of
             None \<Rightarrow> None
           | Some days \<Rightarrow> Some (?local days - localTZA e (?local days) False))"
      using e1
      by (auto simp: getExpiryDate_eq TimeClip_def split: option.splits if_splits)
    have e3: "\<forall>days. defaultDiscountExpiry ?st = Some days
                     \<and> localTZA e (?local days) False = localTZA e (now e) True
                     \<longrightarrow> expiresAt d = Some (now e + days * 86400000)"
      by (subst e2) simp
    have "\<not> isUsed d" "dc_discountPercent d = discountPercent ?st"
      "generatedForOrder d = ?k"
      by (subst d, simp add: nth_order_discount_def settings_after_def order_counter_def)+
    moreover have "discounts s'
        = mark_discount_used (b_discountCode body) (b_userId body) (now e) (discounts s) @ [d]"
      by (subst s') (simp add: confirmed_store_def)
    moreover have "newDiscountCode r
        = Some \<lparr>nd_code = code d, nd_discountPercent = dc_discountPercent d,
                 nd_expiresAt = expiresAt d\<rparr>"
      by (subst r) (simp add: confirm_response_def)
    ultimately show "\<exists>d. discounts s'
                = mark_discount_used (b_discountCode body) (b_userId body) (now e) (discounts s) @ [d]
              \<and> \<not> isUsed d
              \<and> dc_discountPercent d = discountPercent ?st
              \<and> generatedForOrder d = ?k
              \<and> map_option Date (expiresAt d)
                  = (case defaultDiscountExpiry ?st of
                       None \<Rightarrow> None
                     | Some days \<Rightarrow> Some (getExpiryDate (localTZA e) (now e) days))
              \<and> expiresAt d
                  = (case defaultDiscountExpiry ?st of
                       None \<Rightarrow> None
                     | Some days \<Rightarrow> Some (?local days - localTZA e (?local days) False))
              \<and> (\<forall>days. defaultDiscountExpiry ?st = Some days
                     \<and> localTZA e (?local days) False = localTZA e (now e) True
                     \<longrightarrow> expiresAt d = Some (now e + days * 86400000))
              \<and> newDiscountCode r
                  = Some \<lparr>nd_code = code d, nd_discountPercent = dc_discountPercent d,
                           nd_expiresAt = expiresAt d\<rparr>"
      using e1 e2 e3 by blast
  qed
  have skip: "?k mod nthOrderDiscount ?st \<noteq> 0 \<longrightarrow>
         discounts s'
           = mark_discount_used (b_discountCode body) (b_userId body) (now e) (discounts s)
         \<and> newDiscountCode r = None"
  proof
    assume "?k mod nthOrderDiscount ?st \<noteq> 0"
    with nth D have "s' = confirmed_store e body s"
      and "r = confirm_response (order_of_body e body (totalOrders (settings_after s))) None"
      by auto
    then show "discounts s'
           = mark_discount_used (b_discountCode body) (b_userId body) (now e) (discounts s)
         \<and> newDiscountCode r = None"
      by (simp add: confirmed_store_def confirm_response_def)
  qed
  from n five mint skip show ?thesis by blast
qed

lemma findOne_SomeD: "findOne P docs = Some d \<Longrightarrow> P d \<and> d \<in> set docs"
  by (auto simp: findOne_def find_Some_iff)

lemma findOne_findOneAndUpdate:
  "findOne P docs = Some d \<Longrightarrow> P (f d) \<Longrightarrow> findOne P (findOneAndUpdate P f docs) = Some (f d)"
  unfolding findOne_def by (induction docs) (auto split: if_splits)

lemma findOneAndUpdate_const_twice:
  "findOne P docs = Some d \<Longrightarrow> P (g d) \<Longrightarrow>
     findOneAndUpdate P (\<lambda>_. c) (findOneAndUpdate P g docs) = findOneAndUpdate P (\<lambda>_. c) docs"
  unfolding findOne_def by (induction docs) (auto split: if_splits)

lemma findOneAndUpdate_const_idem:
  "findOne P docs = Some d \<Longrightarrow> P c \<Longrightarrow>
     findOneAndUpdate P (\<lambda>_. c) (findOneAndUpdate P (\<lambda>_. c) docs) = findOneAndUpdate P (\<lambda>_. c) docs"
  by (rule findOneAndUpdate_const_twice)

lemma findOne_cart_user:
  "findOne (\<lambda>c. cart_user c = i) docs = Some c \<Longrightarrow> cart_user c = i"
  by (drule findOne_SomeD) simp

lemma valid_cart_appliedDiscount [simp]:
  "valid_cart (c\<lparr>appliedDiscount := a\<rparr>) = valid_cart c"
  by (simp add: valid_cart_def)

lemma save_cart_existing:
  "findOne (\<lambda>c'. cart_user c' = i) (carts s) = Some c0 \<Longrightarrow> cart_user c = i \<Longrightarrow>
     save_cart c s =
       (if valid_cart c
        then Some (s\<lparr>carts := findOneAndUpdate (\<lambda>c'. cart_user c' = i) (\<lambda>_. c) (carts s)\<rparr>)
        else None)"
  by (simp add: save_cart_def)

lemma save_cart_applied:
  "findOne (\<lambda>c'. cart_user c' = i) (carts s) = Some c \<Longrightarrow>
     save_cart (c\<lparr>appliedDiscount := a\<rparr>) s =
       (if valid_cart c
        then Some (s\<lparr>carts := findOneAndUpdate (\<lambda>c'. cart_user c' = i)
                                 (\<lambda>_. c\<lparr>appliedDiscount := a\<rparr>) (carts s)\<rparr>)
        else None)"
  using save_cart_existing [of i s c "c\<lparr>appliedDiscount := a\<rparr>"] findOne_cart_user [of i "carts s" c]
  by simp

lemma discount_POST_SuccessD:
  assumes "discount_POST session e code_text s = (Success applied, s1)"
  shows "\<exists>u d c. session = Some u \<and> code_text \<noteq> []
      \<and> findOne (\<lambda>d. code d = toUpperCase (trim (toUpperCase (toUpperCase code_text))))
            (discounts s) = Some d
      \<and> \<not> isUsed d \<and> \<not> isExpired (now e) (expiresAt d)
      \<and> findOne (\<lambda>c. cart_user c = su_id u) (carts s) = Some c
      \<and> cart_items c \<noteq> [] \<and> valid_cart c
      \<and> applied = \<lparr>di_code = code d, di_percent = dc_discountPercent d\<rparr>
      \<and> s1 = s\<lparr>carts := findOneAndUpdate (\<lambda>c. cart_user c = su_id u)
                   (\<lambda>_. c\<lparr>appliedDiscount := Some (dc_id d)\<rparr>) (carts s)\<rparr>"
  using assms
  unfolding discount_POST_def isExpired_def
  by (auto simp: save_cart_applied split: option.splits if_splits)

text \<open>
  Claim C8. When a code has been applied to a cart and then removed, applying it again
  while it is still unexpired gives the same response and the very store that the first
  application gave; neither applying nor removing writes to the discount codes, and the
  code stays unused.
\<close>

theorem apply_remove_reapply_discount:
  assumes "discount_POST session e1 code_text s = (Success applied, s1)"
    and "discount_DELETE session s1 = (removed, s2)"
    and "findOne (\<lambda>d. code d = toUpperCase (trim (toUpperCase (toUpperCase code_text))))
           (discounts s) = Some d"
    and "\<not> isExpired (now e3) (expiresAt d)"
  shows "discount_POST session e3 code_text s2 = (Success applied, s1)
    \<and> removed = Success ''Discount removed''
    \<and> discounts s1 = discounts s \<and> discounts s2 = discounts s
    \<and> \<not> isUsed d"
proof -
  from discount_POST_SuccessD [OF assms(1)] assms(3)
  obtain u c where u: "session = Some u" and nonempty: "code_text \<noteq> []"
    and unused: "\<not> isUsed d"
    and c: "findOne (\<lambda>c. cart_user c = su_id u) (carts s) = Some c"
    and items: "cart_items c \<noteq> []" and valid: "valid_cart c"
    and applied: "applied = \<lparr>di_code = code d, di_percent = dc_discountPercent d\<rparr>"
    and s1: "s1 = s\<lparr>carts := findOneAndUpdate (\<lambda>c. cart_user c = su_id u)
                   (\<lambda>_. c\<lparr>appliedDiscount := Some (dc_id d)\<rparr>) (carts s)\<rparr>"
    by auto
  let ?P = "\<lambda>c. cart_user c = su_id u"
  let ?c1 = "c\<lparr>appliedDiscount := Some (dc_id d)\<rparr>"
  have user: "cart_user c = su_id u"
    using c by (rule findOne_cart_user)
  have c1: "findOne ?P (carts s1) = Some ?c1"
    unfolding s1 using findOne_findOneAndUpdate [OF c, of "\<lambda>_. ?c1"] user by simp
  from assms(2) have removed: "removed = Success ''Discount removed''"
    and s2: "s2 = s1\<lparr>carts := findOneAndUpdate ?P (\<lambda>c. c\<lparr>appliedDiscount := None\<rparr>) (carts s1)\<rparr>"
    by (simp_all add: discount_DELETE_def u)
  have c2: "findOne ?P (carts s2) = Some (c\<lparr>appliedDiscount := None\<rparr>)"
    unfolding s2
    using findOne_findOneAndUpdate [OF c1, of "\<lambda>c. c\<lparr>appliedDiscount := None\<rparr>"] user by simp
  have d2: "discounts s2 = discounts s"
    by (simp add: s2 s1)
  have carts: "findOneAndUpdate ?P (\<lambda>_. ?c1) (carts s2) = carts s1"
  proof -
    have "findOneAndUpdate ?P (\<lambda>_. ?c1) (carts s2) = findOneAndUpdate ?P (\<lambda>_. ?c1) (carts s1)"
      unfolding s2
      using findOneAndUpdate_const_twice [OF c1, of "\<lambda>c. c\<lparr>appliedDiscount := None\<rparr>" ?c1] user
      by simp
    also have "\<dots> = carts s1"
      unfolding s1 using findOneAndUpdate_const_idem [OF c, of ?c1] user by simp
    finally show ?thesis .
  qed
  have "save_cart ((c\<lparr>appliedDiscount := None\<rparr>)\<lparr>appliedDiscount := Some (dc_id d)\<rparr>) s2
      = Some (s2\<lparr>carts := carts s1\<rparr>)"
    using save_cart_existing [OF c2, of ?c1] user valid carts by simp
  moreover have "s2\<lparr>carts := carts s1\<rparr> = s1"
    by (simp add: s2)
  ultimately have "discount_POST session e3 code_text s2 = (Success applied, s1)"
    using u nonempty assms(3,4) unused c2 items applied d2
    by (simp add: discount_POST_def isExpired_def)
  with removed unused d2 show ?thesis
    by (simp add: s1)
qed

lemma populate_discount_None [simp]: "populate_discount docs None = None"
  by (simp add: populate_discount_def)

text \<open>
  Claim C10. When the code applied to the cart of the checkout's user is used or expired,
  the quote answers exactly as for the same cart without any code: a successful quote has
  no discount code, percent 0, amount 0 and a total equal to the subtotal, and the quote
  does succeed whenever the request is well-formed, the cart is non-empty with all items
  available and the gateway accepts the order. The cart view likewise shows no discount, a
  discount amount of 0 and the subtotal as total.
\<close>

theorem stale_discount_ignored_by_quote:
  assumes "checkout_user x session body = Some (Some uid)"
    and "findOne (\<lambda>c. cart_user c = uid) (carts s) = Some c"
    and "populate_discount (discounts s) (appliedDiscount c) = Some d"
    and "isUsed d \<or> isExpired (now e) (expiresAt d)"
  shows "checkout_POST x session e body s
      = checkout_POST x session e body
          (s\<lparr>carts := findOneAndUpdate (\<lambda>c. cart_user c = uid)
                        (\<lambda>c. c\<lparr>appliedDiscount := None\<rparr>) (carts s)\<rparr>)
    \<and> (\<forall>q. checkout_POST x session e body s = Success q \<longrightarrow>
           q_discountCode q = None \<and> q_discountPercent q = 0 \<and> q_discountAmount q = 0
           \<and> q_total q = q_subtotal q)
    \<and> (checkoutSchema x body \<and> cart_items c \<noteq> []
        \<and> validate_items (populate_items (products s) (cart_items c)) = Inr items
        \<and> razorpay_orders_create x
             (Math_round (foldl (\<lambda>sum item. sum + oi_price item * of_int (oi_quantity item)) 0 items
                * 100)) = Some remote
        \<longrightarrow> (\<exists>q. checkout_POST x session e body s = Success q \<and> q_items q = items
                 \<and> q_razorpayOrderId q = remote \<and> q_userId q = uid))
    \<and> cart_GET (Some \<lparr>su_id = uid, su_role = role\<rparr>) e s
        = (Success (cart_view_of (now e) s c), s)
    \<and> v_discount (cart_view_of (now e) s c) = None
    \<and> v_discountAmount (cart_view_of (now e) s c) = 0
    \<and> v_total (cart_view_of (now e) s c) = v_subtotal (cart_view_of (now e) s c)"
proof -
  let ?P = "\<lambda>c. cart_user c = uid"
  let ?s0 = "s\<lparr>carts := findOneAndUpdate ?P (\<lambda>c. c\<lparr>appliedDiscount := None\<rparr>) (carts s)\<rparr>"
  have user: "cart_user c = uid"
    using assms(2) by (rule findOne_cart_user)
  have c0: "findOne ?P (carts ?s0) = Some (c\<lparr>appliedDiscount := None\<rparr>)"
    using findOne_findOneAndUpdate [OF assms(2), of "\<lambda>c. c\<lparr>appliedDiscount := None\<rparr>"] user
    by simp
  have stale: "(if \<not> isUsed d \<and> \<not> isExpired (now e) (expiresAt d) then a else b) = b" for a b :: 'z
    using assms(4) by auto
  have same: "checkout_POST x session e body s = checkout_POST x session e body ?s0"
    using assms(1,2,3) c0
    by (simp add: checkout_POST_def stale Let_def split: sum.splits)
  have zero: "\<forall>q. checkout_POST x session e body s = Success q \<longrightarrow>
           q_discountCode q = None \<and> q_discountPercent q = 0 \<and> q_discountAmount q = 0
           \<and> q_total q = q_subtotal q"
    using assms(1,2,3)
    by (auto simp: checkout_POST_def stale Let_def split: if_splits sum.splits option.splits)
  have ok: "checkoutSchema x body \<and> cart_items c \<noteq> []
        \<and> validate_items (populate_items (products s) (cart_items c)) = Inr items
        \<and> razorpay_orders_create x
             (Math_round (foldl (\<lambda>sum item. sum + oi_price item * of_int (oi_quantity item)) 0 items
                * 100)) = Some remote
        \<longrightarrow> (\<exists>q. checkout_POST x session e body s = Success q \<and> q_items q = items
                 \<and> q_razorpayOrderId q = remote \<and> q_userId q = uid)"
    using assms(1,2,3)
    by (simp add: checkout_POST_def stale Let_def)
  have get: "cart_GET (Some \<lparr>su_id = uid, su_role = role\<rparr>) e s
        = (Success (cart_view_of (now e) s c), s)"
    using assms(2) by (simp add: cart_GET_def)
  have view: "v_discount (cart_view_of (now e) s c) = None
    \<and> v_discountAmount (cart_view_of (now e) s c) = 0
    \<and> v_total (cart_view_of (now e) s c) = v_subtotal (cart_view_of (now e) s c)"
    using assms(3) by (simp add: cart_view_of_def stale Let_def)
  from same zero ok get view show ?thesis by blast
qed


section \<open>Worked examples\<close>

theorem totalOrders_changed_only_by_confirmation_witness:
  "\<not> is_confirmation (AdminSettingsUpdate (Some admin)
        \<lparr>sb_nthOrderDiscount = Some 3, sb_discountPercent = None,
         sb_defaultDiscountExpiry = None\<rparr>)
   \<and> checkout_PUT env_a (body_of 7 ''pay_1'') (shop None)
       = (Success (receipt 100 1 699 ''pay_1'' None), first_sale)
   \<and> order_counter (step (AdminSettingsUpdate (Some admin)
        \<lparr>sb_nthOrderDiscount = Some 3, sb_discountPercent = None,
         sb_defaultDiscountExpiry = None\<rparr>) (shop None)) = order_counter (shop None)
   \<and> order_counter first_sale = order_counter (shop None) + 1
   \<and> r_orderNumber (receipt 100 1 699 ''pay_1'' None) = order_counter first_sale"
proof -
  have a: "\<not> is_confirmation (AdminSettingsUpdate (Some admin)
        \<lparr>sb_nthOrderDiscount = Some 3, sb_discountPercent = None,
         sb_defaultDiscountExpiry = None\<rparr>)"
    by simp
  have h: "checkout_PUT env_a (body_of 7 ''pay_1'') (shop None)
       = (Success (receipt 100 1 699 ''pay_1'' None), first_sale)"
    by code_simp
  from totalOrders_changed_only_by_confirmation [OF a h] a h show ?thesis
    by blast
qed

theorem confirmation_adds_one_numbered_order_witness:
  "reachable (shop None)
   \<and> checkout_PUT env_a (body_of 7 ''pay_1'') (shop None)
       = (Success (receipt 100 1 699 ''pay_1'' None), first_sale)
   \<and> (\<exists>doc. orders first_sale = orders (shop None) @ [doc]
          \<and> paymentId doc = razorpayPaymentId (body_of 7 ''pay_1''))
   \<and> products first_sale = decrement_stock (b_items (body_of 7 ''pay_1'')) (products (shop None))
   \<and> length (discounts first_sale) \<le> length (discounts (shop None)) + 1
   \<and> reachable first_sale
   \<and> distinct (map orderNumber (orders first_sale))"
proof -
  have r: "reachable (shop None)"
    by (rule reachable.initial) (simp add: shop_def)
  have h: "checkout_PUT env_a (body_of 7 ''pay_1'') (shop None)
       = (Success (receipt 100 1 699 ''pay_1'' None), first_sale)"
    by code_simp
  from confirmation_adds_one_numbered_order [OF r h] r h show ?thesis
    by blast
qed

theorem confirmation_persists_caller_fields_witness:
  "checkout_PUT env_a (body_of 7 ''pay_1'') (shop (Some fifth_next))
     = (Success (receipt 100 5 699 ''pay_1''
          (Some \<lparr>nd_code = ''UNIBLOX-3F2A-9B1C'', nd_discountPercent = 10,
                 nd_expiresAt = Some 2592001000\<rparr>)), fifth_sale)
   \<and> (\<exists>doc. orders fifth_sale = orders (shop (Some fifth_next)) @ [doc]
          \<and> order_items doc = b_items (body_of 7 ''pay_1'')
          \<and> order_total doc = b_total (body_of 7 ''pay_1''))
   \<and> checkout_PUT env_a (body_of 7 ''pay_1'') ((shop (Some fifth_next))\<lparr>carts := []\<rparr>)
       = (Success (receipt 100 5 699 ''pay_1''
            (Some \<lparr>nd_code = ''UNIBLOX-3F2A-9B1C'', nd_discountPercent = 10,
                   nd_expiresAt = Some 2592001000\<rparr>)),
          fifth_sale\<lparr>carts := clear_cart (b_userId (body_of 7 ''pay_1'')) []\<rparr>)"
proof -
  have h: "checkout_PUT env_a (body_of 7 ''pay_1'') (shop (Some fifth_next))
     = (Success (receipt 100 5 699 ''pay_1''
          (Some \<lparr>nd_code = ''UNIBLOX-3F2A-9B1C'', nd_discountPercent = 10,
                 nd_expiresAt = Some 2592001000\<rparr>)), fifth_sale)"
    by code_simp
  from confirmation_persists_caller_fields [OF h, of "[]"] h show ?thesis
    by blast
qed

text \<open>
  Claim C2 as stated fails: two confirmations for the same user, cart and payment that
  differ only in the total sent by the caller store orders with different totals, 699
  and 1, while the cart is priced at 699.
\<close>

theorem client_total_persisted_counterexample:
  "b_userId body_cheap = b_userId (body_of 7 ''pay_1'')
   \<and> razorpayPaymentId body_cheap = razorpayPaymentId (body_of 7 ''pay_1'')
   \<and> v_total (cart_view_of (now env_a) (shop None) (cart_of 7)) = 699
   \<and> map order_total (orders (snd (checkout_PUT env_a (body_of 7 ''pay_1'') (shop None)))) = [699]
   \<and> map order_total (orders (snd (checkout_PUT env_a body_cheap (shop None)))) = [1]"
  by code_simp

text \<open>
  Claim C3 at its failing input. Two customers hold the last unit of a product in their
  carts and both are quoted while the stock is 1; both confirmations succeed and the
  stock ends at minus 1.
\<close>

theorem oversold_stock_goes_negative:
  "map stock (products (shop None)) = [1]
   \<and> succeeded (checkout_POST gateway_up (Some (customer 7)) env_a quote_request (shop None))
   \<and> succeeded (checkout_POST gateway_up (Some (customer 8)) env_a quote_request (shop None))
   \<and> succeeded (fst (checkout_PUT env_a (body_of 7 ''pay_1'') (shop None)))
   \<and> succeeded (fst (checkout_PUT env_b (body_of 8 ''pay_2'') first_sale))
   \<and> map stock (products second_sale) = [- 1]"
  by code_simp

theorem oversold_stock_goes_negative_witness:
  "truthy_string (razorpayPaymentId (body_of 7 ''pay_1''))
   \<and> truthy_string (razorpayOrderId (body_of 7 ''pay_1''))
   \<and> truthy_string (razorpayPaymentId (body_of 8 ''pay_2''))
   \<and> truthy_string (razorpayOrderId (body_of 8 ''pay_2''))
   \<and> succeeded (fst (checkout_PUT env_a (body_of 7 ''pay_1'') (shop None)))
   \<and> succeeded (fst (checkout_PUT env_b (body_of 8 ''pay_2'') first_sale))
   \<and> map stock (products second_sale) = [- 1]"
  using oversold_stock_goes_negative by (simp add: body_of_def truthy_string_def)

text \<open>
  Claim C4 at its failing input. A confirmation that names a code already used by
  another customer succeeds, stores its order with that code, and overwrites the code's
  redeemer and redemption time.
\<close>

theorem used_code_redeemed_again:
  "map isUsed (discounts (shop_with used_code None)) = [True]
   \<and> map usedBy (discounts (shop_with used_code None)) = [Some 7]
   \<and> fst (checkout_PUT env_b body_with_code (shop_with used_code None))
       = Success (receipt 102 1 (6291 / 10) ''pay_2'' None)
   \<and> map order_discountCode
         (orders (snd (checkout_PUT env_b body_with_code (shop_with used_code None))))
       = [Some ''UNIBLOX-AAAA-BBBB'']
   \<and> map usedBy (discounts (snd (checkout_PUT env_b body_with_code (shop_with used_code None))))
       = [Some 8]
   \<and> map usedAt (discounts (snd (checkout_PUT env_b body_with_code (shop_with used_code None))))
       = [Some 2000]"
  by code_simp

theorem used_code_redeemed_again_witness:
  "truthy_string (razorpayPaymentId body_with_code)
   \<and> truthy_string (razorpayOrderId body_with_code)
   \<and> truthy_string (b_discountCode body_with_code)
   \<and> map isUsed (discounts (shop_with used_code None)) = [True]
   \<and> succeeded (fst (checkout_PUT env_b body_with_code (shop_with used_code None)))
   \<and> map usedBy (discounts (snd (checkout_PUT env_b body_with_code (shop_with used_code None))))
       = [Some 8]"
  using used_code_redeemed_again
  by (simp add: body_with_code_def body_of_def truthy_string_def)

theorem reward_code_every_nth_order_witness:
  "checkout_PUT env_a (body_of 7 ''pay_1'') (shop (Some fifth_next))
     = (Success (receipt 100 5 699 ''pay_1''
          (Some \<lparr>nd_code = ''UNIBLOX-3F2A-9B1C'', nd_discountPercent = 10,
                 nd_expiresAt = Some 2592001000\<rparr>)), fifth_sale)
   \<and> checkout_PUT env_a (body_of 7 ''pay_1'') (shop None)
       = (Success (receipt 100 1 699 ''pay_1'' None), first_sale)
   \<and> (order_counter (shop (Some fifth_next)) + 1)
        mod nthOrderDiscount (fst (getStoreSettings (shop (Some fifth_next)))) = 0
   \<and> (order_counter (shop None) + 1)
        mod nthOrderDiscount (fst (getStoreSettings (shop None))) \<noteq> 0
   \<and> nthOrderDiscount (fst (getStoreSettings (shop None))) = 5
   \<and> (\<exists>d. discounts fifth_sale
            = mark_discount_used (b_discountCode (body_of 7 ''pay_1''))
                (b_userId (body_of 7 ''pay_1'')) (now env_a) (discounts (shop (Some fifth_next)))
              @ [d]
          \<and> \<not> isUsed d
          \<and> generatedForOrder d = order_counter (shop (Some fifth_next)) + 1
          \<and> expiresAt d = Some (now env_a + 30 * 86400000))
   \<and> discounts first_sale
       = mark_discount_used (b_discountCode (body_of 7 ''pay_1''))
           (b_userId (body_of 7 ''pay_1'')) (now env_a) (discounts (shop None))"
proof -
  have h5: "checkout_PUT env_a (body_of 7 ''pay_1'') (shop (Some fifth_next))
     = (Success (receipt 100 5 699 ''pay_1''
          (Some \<lparr>nd_code = ''UNIBLOX-3F2A-9B1C'', nd_discountPercent = 10,
                 nd_expiresAt = Some 2592001000\<rparr>)), fifth_sale)"
    by code_simp
  have h1: "checkout_PUT env_a (body_of 7 ''pay_1'') (shop None)
       = (Success (receipt 100 1 699 ''pay_1'' None), first_sale)"
    by code_simp
  have m5: "(order_counter (shop (Some fifth_next)) + 1)
        mod nthOrderDiscount (fst (getStoreSettings (shop (Some fifth_next)))) = 0"
    by code_simp
  have m1: "(order_counter (shop None) + 1)
        mod nthOrderDiscount (fst (getStoreSettings (shop None))) \<noteq> 0"
    by code_simp
  have none: "settings (shop None) = None"
    by (simp add: shop_def)
  have days: "defaultDiscountExpiry (fst (getStoreSettings (shop (Some fifth_next)))) = Some 30"
    by code_simp
  have utc: "localTZA env_a t isUTC = 0" for t isUTC
    by (simp add: env_a_def)
  from reward_code_every_nth_order [OF h5] m5 obtain d where
    d: "discounts fifth_sale
            = mark_discount_used (b_discountCode (body_of 7 ''pay_1''))
                (b_userId (body_of 7 ''pay_1'')) (now env_a) (discounts (shop (Some fifth_next)))
              @ [d]"
      "\<not> isUsed d" "generatedForOrder d = order_counter (shop (Some fifth_next)) + 1"
      "\<forall>days. defaultDiscountExpiry (fst (getStoreSettings (shop (Some fifth_next)))) = Some days
           \<and> localTZA env_a (now env_a + localTZA env_a (now env_a) True + days * 86400000) False
               = localTZA env_a (now env_a) True
           \<longrightarrow> expiresAt d = Some (now env_a + days * 86400000)"
    by blast
  from d(4) days have "expiresAt d = Some (now env_a + 30 * 86400000)"
    by (simp add: utc)
  with d(1,2,3) have ex: "\<exists>d. discounts fifth_sale
            = mark_discount_used (b_discountCode (body_of 7 ''pay_1''))
                (b_userId (body_of 7 ''pay_1'')) (now env_a) (discounts (shop (Some fifth_next)))
              @ [d]
          \<and> \<not> isUsed d
          \<and> generatedForOrder d = order_counter (shop (Some fifth_next)) + 1
          \<and> expiresAt d = Some (now env_a + 30 * 86400000)"
    by blast
  from reward_code_every_nth_order [OF h1] h5 h1 m5 m1 none ex
  show ?thesis
    by blast
qed

text \<open>
  The calendar days of the expiry at work: on a host in New York a code generated on
  20 October 2026 at 08:00 local time with 30 days to run expires on 19 November at 08:00
  local time, which is 30 times 24 hours and one more hour later, the clocks having gone
  back in between. Past the range of dates the handler fails after it has stored the
  order.
\<close>

lemma expiry_across_clock_change:
  "getExpiryDate new_york_2026 1792497600000 30 = Date (1792497600000 + 30 * 86400000 + 3600000)
   \<and> fst (checkout_PUT env_autumn (body_of 7 ''pay_1'') (shop (Some fifth_next)))
       = Success (receipt 100 5 699 ''pay_1''
           (Some \<lparr>nd_code = ''UNIBLOX-3F2A-9B1C'', nd_discountPercent = 10,
                  nd_expiresAt = Some 1795093200000\<rparr>))
   \<and> map expiresAt (discounts autumn_sale) = [Some 1795093200000]"
  by code_simp

lemma expiry_out_of_range:
  "getExpiryDate (\<lambda>t isUTC. 0) 1000 100000000 = Invalid_Date
   \<and> checkout_PUT env_a (body_of 7 ''pay_1'')
         (shop (Some (fifth_next\<lparr>defaultDiscountExpiry := Some 100000000\<rparr>)))
       = (Failure 500 ''Order confirmation failed'',
          confirmed_store env_a (body_of 7 ''pay_1'')
            (shop (Some (fifth_next\<lparr>defaultDiscountExpiry := Some 100000000\<rparr>))))
   \<and> length (orders (confirmed_store env_a (body_of 7 ''pay_1'')
         (shop (Some (fifth_next\<lparr>defaultDiscountExpiry := Some 100000000\<rparr>))))) = 1"
  by code_simp

theorem apply_remove_reapply_discount_witness:
  "discount_POST (Some (customer 7)) env_a ''uniblox-aaaa-bbbb'' (shop_with open_code None)
     = (Success \<lparr>di_code = ''UNIBLOX-AAAA-BBBB'', di_percent = 10\<rparr>,
        shop_with open_code (Some 50))
   \<and> discount_DELETE (Some (customer 7)) (shop_with open_code (Some 50))
       = (Success ''Discount removed'', shop_with open_code None)
   \<and> findOne (\<lambda>d. code d = toUpperCase (trim (toUpperCase (toUpperCase ''uniblox-aaaa-bbbb''))))
        (discounts (shop_with open_code None)) = Some open_code
   \<and> \<not> isExpired (now env_b) (expiresAt open_code)
   \<and> discount_POST (Some (customer 7)) env_b ''uniblox-aaaa-bbbb'' (shop_with open_code None)
       = (Success \<lparr>di_code = ''UNIBLOX-AAAA-BBBB'', di_percent = 10\<rparr>,
          shop_with open_code (Some 50))
   \<and> discounts (shop_with open_code (Some 50)) = discounts (shop_with open_code None)
   \<and> \<not> isUsed open_code"
proof -
  have a: "discount_POST (Some (customer 7)) env_a ''uniblox-aaaa-bbbb'' (shop_with open_code None)
     = (Success \<lparr>di_code = ''UNIBLOX-AAAA-BBBB'', di_percent = 10\<rparr>,
        shop_with open_code (Some 50))"
    by code_simp
  have b: "discount_DELETE (Some (customer 7)) (shop_with open_code (Some 50))
       = (Success ''Discount removed'', shop_with open_code None)"
    by code_simp
  have c: "findOne (\<lambda>d. code d = toUpperCase (trim (toUpperCase (toUpperCase ''uniblox-aaaa-bbbb''))))
        (discounts (shop_with open_code None)) = Some open_code"
    by code_simp
  have d: "\<not> isExpired (now env_b) (expiresAt open_code)"
    by code_simp
  from apply_remove_reapply_discount [OF a b c d] a b c d show ?thesis
    by blast
qed

theorem stale_discount_ignored_by_quote_witness:
  "checkout_user gateway_up (Some (customer 7)) quote_request = Some (Some 7)
   \<and> findOne (\<lambda>c. cart_user c = 7) (carts (shop_with used_code (Some 50)))
       = Some ((cart_of 7)\<lparr>appliedDiscount := Some 50\<rparr>)
   \<and> populate_discount (discounts (shop_with used_code (Some 50)))
        (appliedDiscount ((cart_of 7)\<lparr>appliedDiscount := Some 50\<rparr>)) = Some used_code
   \<and> isUsed used_code
   \<and> (\<exists>q. checkout_POST gateway_up (Some (customer 7)) env_a quote_request
               (shop_with used_code (Some 50)) = Success q
          \<and> q_items q = [bottle_line] \<and> q_discountCode q = None \<and> q_discountPercent q = 0
          \<and> q_discountAmount q = 0 \<and> q_total q = q_subtotal q)
   \<and> v_discount (cart_view_of (now env_a) (shop_with used_code (Some 50))
        ((cart_of 7)\<lparr>appliedDiscount := Some 50\<rparr>)) = None
   \<and> v_discountAmount (cart_view_of (now env_a) (shop_with used_code (Some 50))
        ((cart_of 7)\<lparr>appliedDiscount := Some 50\<rparr>)) = 0"
proof -
  have a: "checkout_user gateway_up (Some (customer 7)) quote_request = Some (Some 7)"
    by code_simp
  have b: "findOne (\<lambda>c. cart_user c = 7) (carts (shop_with used_code (Some 50)))
       = Some ((cart_of 7)\<lparr>appliedDiscount := Some 50\<rparr>)"
    by code_simp
  have c: "populate_discount (discounts (shop_with used_code (Some 50)))
        (appliedDiscount ((cart_of 7)\<lparr>appliedDiscount := Some 50\<rparr>)) = Some used_code"
    by code_simp
  have d: "isUsed used_code"
    by code_simp
  have ok: "checkoutSchema gateway_up quote_request
     \<and> cart_items ((cart_of 7)\<lparr>appliedDiscount := Some 50\<rparr>) \<noteq> []
     \<and> validate_items (populate_items (products (shop_with used_code (Some 50)))
          (cart_items ((cart_of 7)\<lparr>appliedDiscount := Some 50\<rparr>))) = Inr [bottle_line]
     \<and> razorpay_orders_create gateway_up
          (Math_round
            (foldl (\<lambda>sum item. sum + oi_price item * of_int (oi_quantity item)) 0 [bottle_line]
               * 100)) = Some ''order_1''"
    by code_simp
  from stale_discount_ignored_by_quote
         [OF a b c disjI1 [OF d], where e = env_a and items = "[bottle_line]"
            and remote = "''order_1''"]
       ok a b c d
  show ?thesis
    by blast
qed

end
